theory Spec2Isabelle
  imports
    Main
    "HOL-Library.DAList"
    "HOL-Library.Sublist"
    "HOL-Library.Multiset"
    "HOL-Library.List_Lexorder"
begin

section \<open>Python values and their textual representation\<close>

text \<open>
  Python strings are modelled as \<^typ>\<open>string\<close> holding the UTF-8 bytes of the text;
  a character outside ASCII is written byte by byte (\<open>CHR 0xC3, CHR 0xA6\<close> for the
  Danish ae ligature). Concatenation, equality and containment, the only string
  operations of \<open>report_handler.py\<close>, agree on code points and on their UTF-8 bytes.

  The cells of a result row are the values the database driver hands back for the
  columns of the four queries: \<open>None\<close> for SQL NULL, a \<open>str\<close>, an \<open>int\<close> or a
  \<open>datetime.datetime\<close>.
\<close>

record datetime =
  year :: nat
  month :: nat
  day :: nat
  hour :: nat
  minute :: nat
  second :: nat
  microsecond :: nat

datatype pyval = PNone | PStr string | PInt int | PDatetime datetime

text \<open>Decimal digits of a natural number, as \<open>str\<close> and \<open>%d\<close> print them.\<close>

fun digits10 :: "nat \<Rightarrow> string" where
  "digits10 n =
     (if n < 10 then [''0123456789'' ! n]
      else digits10 (n div 10) @ [''0123456789'' ! (n mod 10)])"

declare digits10.simps [simp del]

text \<open>\<open>%0wd\<close>: zero padding on the left up to width \<open>w\<close>.\<close>

definition zero_pad :: "nat \<Rightarrow> nat \<Rightarrow> string" where
  "zero_pad w n = replicate (w - length (digits10 n)) (CHR ''0'') @ digits10 n"

text \<open>
  \<open>str(datetime)\<close> is \<open>isoformat(sep=' ')\<close>: \<open>YYYY-MM-DD HH:MM:SS\<close>, followed by
  \<open>.ffffff\<close> when the microsecond field is not zero.
\<close>

definition str_datetime :: "datetime \<Rightarrow> string" where
  "str_datetime d =
     zero_pad 4 (year d) @ ''-'' @ zero_pad 2 (month d) @ ''-'' @ zero_pad 2 (day d) @ '' '' @
     zero_pad 2 (hour d) @ '':'' @ zero_pad 2 (minute d) @ '':'' @ zero_pad 2 (second d) @
     (if microsecond d = 0 then [] else ''.'' @ zero_pad 6 (microsecond d))"

text \<open>What an f-string placeholder \<open>{value}\<close> inserts: \<open>str(value)\<close>.\<close>

fun py_str :: "pyval \<Rightarrow> string" where
  "py_str PNone = ''None''"
| "py_str (PStr s) = s"
| "py_str (PInt i) = (if i < 0 then ''-'' @ digits10 (nat (- i)) else digits10 (nat i))"
| "py_str (PDatetime d) = str_datetime d"


section \<open>Rows: insertion-ordered dictionaries\<close>

text \<open>
  A row is a Python \<open>dict\<close> from column name to value. A \<open>dict\<close> keeps its keys
  distinct and iterates in insertion order; storing under a key that is present
  replaces the value and keeps the key's position. This is the type of association
  lists with distinct keys, with \<^const>\<open>DAList.update\<close> as item assignment.
\<close>

type_synonym row = "(string, pyval) alist"

definition py_keys :: "row \<Rightarrow> string list" where
  "py_keys d = map fst (DAList.impl_of d)"

definition py_values :: "row \<Rightarrow> pyval list" where
  "py_values d = map snd (DAList.impl_of d)"

text \<open>\<open>dict(pairs)\<close>: the pairs are stored one after the other into an empty dict.\<close>

definition py_dict :: "(string \<times> pyval) list \<Rightarrow> row" where
  "py_dict kvs = foldl (\<lambda>d (k, v). DAList.update k v d) DAList.empty kvs"


section \<open>\<open>ReportGenerator.convert_to_html_table\<close>\<close>

text \<open>
  \<^verbatim>\<open>
  if not data:
      return "<p>Ingen data tilg[ae]ngelig.</p>"
  headers = data[0].keys()
  header_html = ''.join(f'<th>{header}</th>' for header in headers)
  rows_html = ''.join(
      '<tr>' + ''.join(f'<td>{value}</td>' for value in row.values()) + '</tr>'
      for row in data)
  html_table = f'<table><thead><tr>{header_html}</tr></thead><tbody>{rows_html}</tbody></table>'
  return html_table
  \<close>
  \<open>''.join\<close> of a generator is \<^const>\<open>concat\<close> of a \<^const>\<open>map\<close>. The keys are
  column names, already strings. The function has no \<open>raise\<close> and performs no
  check on its argument beyond emptiness, so the model is a total function to strings.
\<close>

definition no_data_placeholder :: string where
  "no_data_placeholder = ''<p>Ingen data tilg'' @ [CHR 0xC3, CHR 0xA6] @ ''ngelig.</p>''"

definition convert_to_html_table :: "row list \<Rightarrow> string" where
  "convert_to_html_table data =
     (case data of
        [] \<Rightarrow> no_data_placeholder
      | row0 # _ \<Rightarrow>
          (let headers = py_keys row0;
               header_html = concat (map (\<lambda>header. ''<th>'' @ header @ ''</th>'') headers);
               rows_html = concat (map (\<lambda>row.
                   ''<tr>'' @ concat (map (\<lambda>value. ''<td>'' @ py_str value @ ''</td>'') (py_values row))
                   @ ''</tr>'') data)
           in ''<table><thead><tr>'' @ header_html @ ''</tr></thead><tbody>'' @ rows_html
              @ ''</tbody></table>''))"


section \<open>The database behind the four queries\<close>

text \<open>
  The tables \<open>Triggers\<close> and \<open>Scheduled_Triggers\<close> belong to the orchestrator's
  database, outside the repository; their columns are those the four SQL texts
  name. \<open>last_run\<close> and \<open>next_run\<close> are nullable timestamps (\<open>None\<close> is SQL
  NULL). A database, as one statement sees it, is the contents of the two tables,
  the value of \<open>GETDATE()\<close> and the collation, which maps a string to the sort key
  that \<open>ORDER BY\<close> and \<open>=\<close> compare.
\<close>

record trigger =
  t_id :: nat
  trigger_name :: string
  process_name :: string
  last_run :: "datetime option"
  process_status :: string

record scheduled_trigger =
  st_id :: nat
  next_run :: "datetime option"

record database =
  Triggers :: "trigger list"
  Scheduled_Triggers :: "scheduled_trigger list"
  GETDATE :: datetime
  collation :: "string \<Rightarrow> nat list"

text \<open>Timestamps compare field by field, from the year down to the microsecond.\<close>

definition dt_key :: "datetime \<Rightarrow> nat list" where
  "dt_key d = [year d, month d, day d, hour d, minute d, second d, microsecond d]"

definition dt_less :: "datetime \<Rightarrow> datetime \<Rightarrow> bool" where
  "dt_less a b = (dt_key a < dt_key b)"

text \<open>
  SQL comparisons are three-valued: a comparison with NULL is UNKNOWN (\<open>None\<close>),
  and \<open>WHERE\<close> keeps a row only when its condition is TRUE.
\<close>

definition sql_lt :: "datetime option \<Rightarrow> datetime option \<Rightarrow> bool option" where
  "sql_lt a b = (case (a, b) of (Some x, Some y) \<Rightarrow> Some (dt_less x y) | _ \<Rightarrow> None)"

definition sql_gt :: "datetime option \<Rightarrow> datetime option \<Rightarrow> bool option" where
  "sql_gt a b = sql_lt b a"

definition sql_and :: "bool option \<Rightarrow> bool option \<Rightarrow> bool option" where
  "sql_and p q =
     (if p = Some False \<or> q = Some False then Some False
      else if p = Some True \<and> q = Some True then Some True
      else None)"

definition sql_is_not_null :: "'a option \<Rightarrow> bool option" where
  "sql_is_not_null a = Some (a \<noteq> None)"

definition sql_where :: "bool option \<Rightarrow> bool" where
  "sql_where c = (c = Some True)"

text \<open>\<open>DATEADD(day, -n, d)\<close>: \<open>n\<close> steps back by one calendar day.\<close>

definition days_in_month :: "nat \<Rightarrow> nat \<Rightarrow> nat" where
  "days_in_month y m =
     (if m = 2 then (if y mod 4 = 0 \<and> (y mod 100 \<noteq> 0 \<or> y mod 400 = 0) then 29 else 28)
      else if m = 4 \<or> m = 6 \<or> m = 9 \<or> m = 11 then 30
      else 31)"

definition previous_day :: "datetime \<Rightarrow> datetime" where
  "previous_day d =
     (if 1 < day d then d\<lparr>day := day d - 1\<rparr>
      else if 1 < month d then d\<lparr>month := month d - 1, day := days_in_month (year d) (month d - 1)\<rparr>
      else d\<lparr>year := year d - 1, month := 12, day := 31\<rparr>)"

definition dateadd_day_minus :: "nat \<Rightarrow> datetime \<Rightarrow> datetime" where
  "dateadd_day_minus n d = (previous_day ^^ n) d"

text \<open>What the driver returns for a column value: \<open>None\<close> for NULL.\<close>

definition py_of_datetime :: "datetime option \<Rightarrow> pyval" where
  "py_of_datetime a = (case a of None \<Rightarrow> PNone | Some d \<Rightarrow> PDatetime d)"

text \<open>
  The four SQL texts are constants of the source; \<open>fetch_data\<close> is called with
  nothing else.
\<close>

datatype query = MissedRunsQuery | ProcessFailureQuery | ProcessStatusQuery | OverdueProcessesQuery

text \<open>\<open>FROM Triggers t JOIN Scheduled_Triggers st ON t.id = st.id\<close>\<close>

definition triggers_join :: "database \<Rightarrow> (trigger \<times> scheduled_trigger) list" where
  "triggers_join db =
     [(t, st). t \<leftarrow> Triggers db, st \<leftarrow> Scheduled_Triggers db, t_id t = st_id st]"

text \<open>
  \<^verbatim>\<open>
  SELECT t.trigger_name, t.process_name, t.last_run, st.next_run
  FROM [RPA].[dbo].[Triggers] t
  JOIN [RPA].[dbo].[Scheduled_Triggers] st ON t.id = st.id
  WHERE t.last_run < st.next_run
    AND GETDATE() > st.next_run
  ORDER BY trigger_name
  \<close>
  The rows that pass \<open>WHERE\<close>, in the order \<open>ORDER BY\<close> gives them, before
  \<open>SELECT\<close> projects them. SQL leaves the order of rows with equal sort keys
  open; the model keeps them in join order.
\<close>

definition missed_runs_selection :: "database \<Rightarrow> (trigger \<times> scheduled_trigger) list" where
  "missed_runs_selection db =
     sort_key (\<lambda>(t, st). collation db (trigger_name t))
       (filter (\<lambda>(t, st). sql_where
            (sql_and (sql_lt (last_run t) (next_run st))
                     (sql_gt (Some (GETDATE db)) (next_run st))))
          (triggers_join db))"

text \<open>
  \<^verbatim>\<open>
  SELECT t.trigger_name, t.process_name, t.last_run, t.process_status
  FROM [RPA].[dbo].[Triggers] t
  WHERE t.process_status = 'Failed'
    AND t.last_run > DATEADD(day, -7, GETDATE())
  ORDER BY trigger_name
  \<close>
\<close>

definition process_failure_selection :: "database \<Rightarrow> trigger list" where
  "process_failure_selection db =
     sort_key (\<lambda>t. collation db (trigger_name t))
       (filter (\<lambda>t. sql_where
            (sql_and (Some (collation db (process_status t) = collation db ''Failed''))
                     (sql_gt (last_run t) (Some (dateadd_day_minus 7 (GETDATE db))))))
          (Triggers db))"

text \<open>
  \<^verbatim>\<open>
  SELECT t.trigger_name, t.process_status, st.next_run, t.last_run
  FROM [RPA].[dbo].[Triggers] t
  JOIN [RPA].[dbo].[Scheduled_Triggers] st ON t.id = st.id
  WHERE t.last_run IS NOT NULL
  ORDER BY trigger_name
  \<close>
\<close>

definition process_status_selection :: "database \<Rightarrow> (trigger \<times> scheduled_trigger) list" where
  "process_status_selection db =
     sort_key (\<lambda>(t, st). collation db (trigger_name t))
       (filter (\<lambda>(t, st). sql_where (sql_is_not_null (last_run t))) (triggers_join db))"

text \<open>
  \<^verbatim>\<open>
  SELECT t.trigger_name, t.process_name, st.next_run, t.last_run
  FROM [RPA].[dbo].[Triggers] t
  JOIN [RPA].[dbo].[Scheduled_Triggers] st ON t.id = st.id
  WHERE st.next_run < GETDATE()
  ORDER BY trigger_name
  \<close>
\<close>

definition overdue_processes_selection :: "database \<Rightarrow> (trigger \<times> scheduled_trigger) list" where
  "overdue_processes_selection db =
     sort_key (\<lambda>(t, st). collation db (trigger_name t))
       (filter (\<lambda>(t, st). sql_where (sql_lt (next_run st) (Some (GETDATE db))))
          (triggers_join db))"

text \<open>
  Executing a statement gives the column names of \<open>cursor.description\<close> and the
  tuples of \<open>cursor.fetchall()\<close>, in the order of the \<open>SELECT\<close> list.
\<close>

fun execute :: "database \<Rightarrow> query \<Rightarrow> string list \<times> pyval list list" where
  "execute db MissedRunsQuery =
     ([''trigger_name'', ''process_name'', ''last_run'', ''next_run''],
      map (\<lambda>(t, st). [PStr (trigger_name t), PStr (process_name t),
                      py_of_datetime (last_run t), py_of_datetime (next_run st)])
        (missed_runs_selection db))"
| "execute db ProcessFailureQuery =
     ([''trigger_name'', ''process_name'', ''last_run'', ''process_status''],
      map (\<lambda>t. [PStr (trigger_name t), PStr (process_name t),
                 py_of_datetime (last_run t), PStr (process_status t)])
        (process_failure_selection db))"
| "execute db ProcessStatusQuery =
     ([''trigger_name'', ''process_status'', ''next_run'', ''last_run''],
      map (\<lambda>(t, st). [PStr (trigger_name t), PStr (process_status t),
                      py_of_datetime (next_run st), py_of_datetime (last_run t)])
        (process_status_selection db))"
| "execute db OverdueProcessesQuery =
     ([''trigger_name'', ''process_name'', ''next_run'', ''last_run''],
      map (\<lambda>(t, st). [PStr (trigger_name t), PStr (process_name t),
                      py_of_datetime (next_run st), py_of_datetime (last_run t)])
        (overdue_processes_selection db))"


section \<open>The world outside the process: database sessions and mail submission\<close>

text \<open>
  The code reaches the database through \<open>pyodbc\<close> and the mail server through
  \<open>smtplib\<close>. Both are the environment of the program: what the \<open>n\<close>-th database
  session meets (a connection that cannot be made, a statement that fails after the
  connection is made, or the database as that statement sees it) and what the \<open>n\<close>-th
  SMTP session meets are given by the world. The contents of the database and its
  clock may differ from one session to the next. An SMTP session can fail before the
  message is accepted (connection, STARTTLS, submission), accept it and end well, or
  accept it and raise afterwards: \<open>send_message\<close> has returned, and then \<open>print\<close>
  or the end of the \<open>with\<close> block (a \<open>QUIT\<close> that is not answered with 221) raises
  the error that the outcome names.

  The exceptions of the drivers are named after the error taxonomy of the
  specification: \<open>DatabaseError\<close> for an exception of \<open>pyodbc\<close>,
  \<open>MailTransportError\<close> for one of \<open>smtplib\<close>, \<open>ConfigurationError\<close> for job
  arguments that do not parse or lack a key. \<open>OutputError\<close> is an exception of
  \<open>print\<close>, which the taxonomy does not name.
\<close>

datatype error = DatabaseError | MailTransportError | ConfigurationError | OutputError

datatype db_outcome = ConnectFails | QueryFails | Answers database

datatype smtp_outcome =
  SmtpConnectFails | StarttlsFails | SendFails | Accepts | AcceptsThenRaises error

text \<open>
  A message is its header fields in the order they were added (\<open>msg[name] = value\<close>
  appends a field) and its attached MIME parts, each a subtype and a text.
\<close>

record message =
  msg_headers :: "(string \<times> string) list"
  msg_parts :: "(string \<times> string) list"

record submission =
  to_server :: string
  to_port :: string
  submitted :: message

record world =
  db_env :: "nat \<Rightarrow> db_outcome"
  db_calls :: nat
  open_connections :: nat
  smtp_env :: "nat \<Rightarrow> smtp_outcome"
  smtp_calls :: nat
  outbox :: "submission list"

text \<open>
  A method is a function from the world to a result and the world after it. An
  exception is the result \<open>Inl\<close>; the world keeps what was done before it was raised.
\<close>

type_synonym 'a io = "world \<Rightarrow> (error + 'a) \<times> world"

definition io_return :: "'a \<Rightarrow> 'a io" where
  "io_return x w = (Inr x, w)"

definition io_bind :: "'a io \<Rightarrow> ('a \<Rightarrow> 'b io) \<Rightarrow> 'b io" where
  "io_bind m f w = (case m w of (Inl e, w') \<Rightarrow> (Inl e, w') | (Inr x, w') \<Rightarrow> f x w')"


section \<open>\<open>ReportGenerator.fetch_data\<close> and the four reports\<close>

text \<open>
  \<open>get_db_connection\<close>: \<open>pyodbc.connect(...)\<close> on the connection string constant.
  It starts the next database session and returns its handle, or raises.
\<close>

definition get_db_connection :: "nat io" where
  "get_db_connection w =
     (let n = db_calls w; w' = w\<lparr>db_calls := n + 1\<rparr>
      in case db_env w n of
           ConnectFails \<Rightarrow> (Inl DatabaseError, w')
         | _ \<Rightarrow> (Inr n, w'\<lparr>open_connections := open_connections w + 1\<rparr>))"

text \<open>
  \<open>conn.cursor()\<close>, \<open>cursor.execute(query)\<close>, the column names of
  \<open>cursor.description\<close> and \<open>cursor.fetchall()\<close>: the statement runs in the session
  of the handle and gives the column names and the tuples, or raises.
\<close>

definition cursor_execute :: "nat \<Rightarrow> query \<Rightarrow> (string list \<times> pyval list list) io" where
  "cursor_execute conn query w =
     (case db_env w conn of
        Answers db \<Rightarrow> (Inr (execute db query), w)
      | _ \<Rightarrow> (Inl DatabaseError, w))"

definition conn_close :: "nat \<Rightarrow> unit io" where
  "conn_close conn w = (Inr (), w\<lparr>open_connections := open_connections w - 1\<rparr>)"

text \<open>
  \<^verbatim>\<open>
  def fetch_data(self, query):
      conn = self.get_db_connection()
      cursor = conn.cursor()
      cursor.execute(query)
      columns = [column[0] for column in cursor.description]
      results = cursor.fetchall()
      conn.close()
      data = [dict(zip(columns, row)) for row in results]
      return data
  \<close>
\<close>

definition fetch_data :: "query \<Rightarrow> row list io" where
  "fetch_data query =
     io_bind get_db_connection (\<lambda>conn.
     io_bind (cursor_execute conn query) (\<lambda>(columns, results).
     io_bind (conn_close conn) (\<lambda>_.
     io_return (map (\<lambda>row. py_dict (zip columns row)) results))))"

definition missed_runs_report :: "row list io" where
  "missed_runs_report = fetch_data MissedRunsQuery"

definition process_failure_report :: "row list io" where
  "process_failure_report = fetch_data ProcessFailureQuery"

definition process_status_report :: "row list io" where
  "process_status_report = fetch_data ProcessStatusQuery"

definition overdue_processes_report :: "row list io" where
  "overdue_processes_report = fetch_data OverdueProcessesQuery"


section \<open>\<open>ReportGenerator.generate_html_report\<close>\<close>

text \<open>
  The Jinja template of the source, cut at its four placeholders
  \<open>{{ missed_runs_table | safe }}\<close>, \<open>{{ process_failures_table | safe }}\<close>,
  \<open>{{ overdue_processes_table | safe }}\<close> and \<open>{{ process_status_table | safe }}\<close>.
  Rendering puts the value of each variable in the place of its placeholder and
  leaves every other character as it is.
\<close>

definition template_head :: string where
  "template_head =
     [CHR 0x0A] @
     ''        <html>'' @ [CHR 0x0A] @
     ''        <head>'' @ [CHR 0x0A] @
     ''        <style>'' @ [CHR 0x0A] @
     ''            table, th, td {'' @ [CHR 0x0A] @
     ''                border: 1px solid black;'' @ [CHR 0x0A] @
     ''                border-collapse: collapse;'' @ [CHR 0x0A] @
     ''                padding: 8px;'' @ [CHR 0x0A] @
     ''                font-size: 14px;  /* Mindre fontst'' @ [CHR 0xC3, CHR 0xB8] @ ''rrelse for tabeller */'' @ [CHR 0x0A] @
     ''            }'' @ [CHR 0x0A] @
     ''            h3 {'' @ [CHR 0x0A] @
     ''                font-size: 16px;  /* Mindre fontst'' @ [CHR 0xC3, CHR 0xB8] @ ''rrelse for overskrifter */'' @ [CHR 0x0A] @
     ''            }'' @ [CHR 0x0A] @
     ''            body {'' @ [CHR 0x0A] @
     ''                font-size: 12px;  /* Generel fontst'' @ [CHR 0xC3, CHR 0xB8] @ ''rrelse for hele dokumentet */'' @ [CHR 0x0A] @
     ''            }'' @ [CHR 0x0A] @
     ''        </style>'' @ [CHR 0x0A] @
     ''        </head>'' @ [CHR 0x0A] @
     ''        <body>'' @ [CHR 0x0A] @
     ''            <h3>Manglende k'' @ [CHR 0xC3, CHR 0xB8] @ ''rsler</h3>'' @ [CHR 0x0A] @
     ''            ''"

definition template_failures_heading :: string where
  "template_failures_heading =
     [CHR 0x0A] @
     ''        <br/><br/>'' @ [CHR 0x0A] @
     ''            <h3>Fejlede processer (Sidste 7 Dage)</h3>'' @ [CHR 0x0A] @
     ''            ''"

definition template_overdue_heading :: string where
  "template_overdue_heading =
     [CHR 0x0A] @
     ''        <br/><br/>'' @ [CHR 0x0A] @
     ''            <h3>Forsinkede processer</h3>'' @ [CHR 0x0A] @
     ''            ''"

definition template_status_heading :: string where
  "template_status_heading =
     [CHR 0x0A] @
     ''        <br/><br/>'' @ [CHR 0x0A] @
     ''            <h3>Processtatus</h3>'' @ [CHR 0x0A] @
     ''            ''"

definition template_tail :: string where
  "template_tail =
     [CHR 0x0A] @
     ''        </body>'' @ [CHR 0x0A] @
     ''        </html>'' @ [CHR 0x0A] @
     ''        ''"

text \<open>
  \<open>template.render(missed_runs_table=..., overdue_processes_table=...,
  process_failures_table=..., process_status_table=...)\<close>, with the arguments in the
  order of the call.
\<close>

definition template_render :: "string \<Rightarrow> string \<Rightarrow> string \<Rightarrow> string \<Rightarrow> string" where
  "template_render missed_runs_table overdue_processes_table process_failures_table
       process_status_table =
     template_head @ missed_runs_table @
     template_failures_heading @ process_failures_table @
     template_overdue_heading @ overdue_processes_table @
     template_status_heading @ process_status_table @
     template_tail"

text \<open>
  \<open>a or b\<close> on lists is \<open>a\<close> when \<open>a\<close> is not empty and \<open>b\<close> otherwise;
  \<open>bool\<close> of a list is whether it is not empty.
\<close>

definition py_or :: "'a list \<Rightarrow> 'a list \<Rightarrow> 'a list" where
  "py_or a b = (if a \<noteq> [] then a else b)"

definition py_bool :: "'a list \<Rightarrow> bool" where
  "py_bool a = (a \<noteq> [])"

text \<open>
  \<^verbatim>\<open>
  missed_runs = self.missed_runs_report()
  overdue_processes = self.overdue_processes_report()
  process_failures = self.process_failure_report()
  process_status = self.process_status_report()
  alert_flag = bool(missed_runs or overdue_processes)
  ...
  missed_runs_table = self.convert_to_html_table(missed_runs)
  overdue_processes_table = self.convert_to_html_table(overdue_processes)
  process_failures_table = self.convert_to_html_table(process_failures)
  process_status_table = self.convert_to_html_table(process_status)
  template = Template(html_template)
  html_content = template.render(...)
  return html_content, alert_flag
  \<close>
\<close>

definition generate_html_report :: "(string \<times> bool) io" where
  "generate_html_report =
     io_bind missed_runs_report (\<lambda>missed_runs.
     io_bind overdue_processes_report (\<lambda>overdue_processes.
     io_bind process_failure_report (\<lambda>process_failures.
     io_bind process_status_report (\<lambda>process_status.
       (let alert_flag = py_bool (py_or missed_runs overdue_processes);
            missed_runs_table = convert_to_html_table missed_runs;
            overdue_processes_table = convert_to_html_table overdue_processes;
            process_failures_table = convert_to_html_table process_failures;
            process_status_table = convert_to_html_table process_status;
            html_content = template_render missed_runs_table overdue_processes_table
                             process_failures_table process_status_table
        in io_return (html_content, alert_flag))))))"


section \<open>\<open>ReportGenerator.send_email\<close>\<close>

record email_settings =
  from_email :: string
  to_email :: string
  smtp_server :: string
  smtp_port :: string

text \<open>\<open>MIMEMultipart()\<close> starts with its content type and MIME version fields.\<close>

definition MIMEMultipart :: message where
  "MIMEMultipart =
     \<lparr>msg_headers = [(''Content-Type'', ''multipart/mixed''), (''MIME-Version'', ''1.0'')],
      msg_parts = []\<rparr>"

definition set_header :: "string \<Rightarrow> string \<Rightarrow> message \<Rightarrow> message" where
  "set_header name v msg = msg\<lparr>msg_headers := msg_headers msg @ [(name, v)]\<rparr>"

definition attach :: "string \<times> string \<Rightarrow> message \<Rightarrow> message" where
  "attach part msg = msg\<lparr>msg_parts := msg_parts msg @ [part]\<rparr>"

definition warning_suffix :: string where
  "warning_suffix =
     '' - '' @ [CHR 0xE2, CHR 0x9A, CHR 0xA0, CHR 0xEF, CHR 0xB8, CHR 0x8F]
     @ '' Advarsel. Handling p'' @ [CHR 0xC3, CHR 0xA5] @ ''kr'' @ [CHR 0xC3, CHR 0xA6] @ ''vet ''
     @ [CHR 0xE2, CHR 0x9A, CHR 0xA0, CHR 0xEF, CHR 0xB8, CHR 0x8F]"

text \<open>
  The message of \<open>send_email\<close>, lines 200 to 214 of \<open>report_handler.py\<close>:
  \<^verbatim>\<open>
  subject = 'RPA - Driftsrapport'
  msg = MIMEMultipart()
  if alert_flag:
      subject += ' - [warning sign] Advarsel. Handling p[aa]kr[ae]vet [warning sign]'
      msg['X-Priority'] = '1'
      msg['X-MSMail-Priority'] = 'High'
      msg['Importance'] = 'High'
  msg['From'] = self.email_settings['from_email']
  msg['To'] = self.email_settings['to_email']
  msg['Subject'] = subject
  msg.attach(MIMEText(html_content, 'html'))
  \<close>
\<close>

definition email_message :: "email_settings \<Rightarrow> string \<Rightarrow> bool \<Rightarrow> message" where
  "email_message settings html_content alert_flag =
     (let subject = ''RPA - Driftsrapport'';
          msg = MIMEMultipart;
          (subject, msg) =
            (if alert_flag
             then (subject @ warning_suffix,
                   set_header ''Importance'' ''High''
                     (set_header ''X-MSMail-Priority'' ''High''
                       (set_header ''X-Priority'' ''1'' msg)))
             else (subject, msg));
          msg = set_header ''From'' (from_email settings) msg;
          msg = set_header ''To'' (to_email settings) msg;
          msg = set_header ''Subject'' subject msg
      in attach (''html'', html_content) msg)"

text \<open>
  \<^verbatim>\<open>
  with smtplib.SMTP(self.email_settings['smtp_server'], self.email_settings['smtp_port']) as server:
      server.starttls()
      server.send_message(msg)
      print(...)
  \<close>
  One SMTP session: the message reaches the server when the connection, STARTTLS and
  the submission all succeed. The call returns when the statements after
  \<open>send_message\<close> succeed as well; when \<open>print\<close> or the exit of the \<open>with\<close> block
  raises, the exception leaves \<open>send_email\<close> although the message is submitted. An
  exception before the submission leaves the outbox as it was. The \<open>with\<close> block
  ends the session on every path; what \<open>print\<close> writes is not modelled.
\<close>

definition smtp_send_message :: "email_settings \<Rightarrow> message \<Rightarrow> unit io" where
  "smtp_send_message settings msg w =
     (let n = smtp_calls w; w' = w\<lparr>smtp_calls := n + 1\<rparr>
      in case smtp_env w n of
           Accepts \<Rightarrow>
             (Inr (), w'\<lparr>outbox := outbox w @
                [\<lparr>to_server = smtp_server settings, to_port = smtp_port settings,
                  submitted = msg\<rparr>]\<rparr>)
         | AcceptsThenRaises e \<Rightarrow>
             (Inl e, w'\<lparr>outbox := outbox w @
                [\<lparr>to_server = smtp_server settings, to_port = smtp_port settings,
                  submitted = msg\<rparr>]\<rparr>)
         | _ \<Rightarrow> (Inl MailTransportError, w'))"

text \<open>
  \<^verbatim>\<open>
  def send_email(self, html_content):
      html_content, alert_flag = self.generate_html_report()
      ...
  \<close>
  The first statement binds the name of the parameter anew.
\<close>

definition send_email :: "email_settings \<Rightarrow> 'a \<Rightarrow> unit io" where
  "send_email settings html_content =
     io_bind generate_html_report (\<lambda>(html_content, alert_flag).
       smtp_send_message settings (email_message settings html_content alert_flag))"


section \<open>\<open>process\<close>\<close>

text \<open>
  \<open>robot_framework/config.py\<close> is not among the sources; its constants
  \<open>SMTP_SERVER\<close> and \<open>SMTP_PORT\<close> are parameters of the model.

  \<open>json.loads\<close> is not modelled: the job arguments are given as its result, \<open>None\<close>
  when the text is not a JSON object and the object as a map otherwise. A missing key
  raises. Logging (\<open>log_trace\<close>) is not modelled.
  \<^verbatim>\<open>
  oc_args_json = json.loads(orchestrator_connection.process_arguments)
  email_settings = {
      'from_email': f'{oc_args_json["fromEmail"]}',
      'to_email': f'{oc_args_json["toEmail"]}',
      'smtp_server': f'{config.SMTP_SERVER}',
      'smtp_port': f'{config.SMTP_PORT}'}
  report_generator = ReportGenerator(...)
  html_report = report_generator.generate_html_report()
  report_generator.send_email(html_report)
  \<close>
\<close>

record config =
  SMTP_SERVER :: pyval
  SMTP_PORT :: pyval

definition process :: "config \<Rightarrow> (string \<rightharpoonup> pyval) option \<Rightarrow> unit io" where
  "process cfg process_arguments =
     (case process_arguments of
        None \<Rightarrow> (\<lambda>w. (Inl ConfigurationError, w))
      | Some oc_args_json \<Rightarrow>
          (case (oc_args_json ''fromEmail'', oc_args_json ''toEmail'') of
             (Some from, Some to) \<Rightarrow>
               (let settings = \<lparr>from_email = py_str from, to_email = py_str to,
                                smtp_server = py_str (SMTP_SERVER cfg),
                                smtp_port = py_str (SMTP_PORT cfg)\<rparr>
                in io_bind generate_html_report (\<lambda>html_report.
                     send_email settings html_report))
           | _ \<Rightarrow> (\<lambda>w. (Inl ConfigurationError, w))))"


section \<open>Auxiliary notions and example data\<close>

text \<open>
  What \<open>fetch_data\<close> returns when its session sees the database \<open>db\<close>: the tuples
  of the statement, each zipped with the column names into a dict.
\<close>

definition result_set :: "database \<Rightarrow> query \<Rightarrow> row list" where
  "result_set db query =
     (case execute db query of
        (columns, results) \<Rightarrow> map (\<lambda>row. py_dict (zip columns row)) results)"

text \<open>
  How often a tag occurs in a text: the number of positions at which the text goes on
  with the tag.
\<close>

fun occurrences :: "string \<Rightarrow> string \<Rightarrow> nat" where
  "occurrences p [] = 0"
| "occurrences p (c # cs) = (if prefix p (c # cs) then 1 else 0) + occurrences p cs"

text \<open>
  A small database on which the theorems are exercised: two triggers whose scheduled
  run of 2 January 2024 is past and was not made, and one that has never run.
\<close>

definition on_day :: "nat \<Rightarrow> nat \<Rightarrow> nat \<Rightarrow> datetime" where
  "on_day y m d =
     \<lparr>year = y, month = m, day = d, hour = 0, minute = 0, second = 0, microsecond = 0\<rparr>"

definition example_triggers :: "trigger list" where
  "example_triggers =
     [\<lparr>t_id = 2, trigger_name = ''Payroll'', process_name = ''P2'',
       last_run = Some (on_day 2024 1 1), process_status = ''Idle''\<rparr>,
      \<lparr>t_id = 1, trigger_name = ''Invoices'', process_name = ''P1'',
       last_run = Some (on_day 2024 1 1), process_status = ''Failed''\<rparr>,
      \<lparr>t_id = 3, trigger_name = ''Archive'', process_name = ''P3'',
       last_run = None, process_status = ''Idle''\<rparr>]"

definition example_schedule :: "scheduled_trigger list" where
  "example_schedule =
     [\<lparr>st_id = 1, next_run = Some (on_day 2024 1 2)\<rparr>,
      \<lparr>st_id = 2, next_run = Some (on_day 2024 1 2)\<rparr>,
      \<lparr>st_id = 3, next_run = Some (on_day 2024 1 2)\<rparr>]"

definition example_database :: database where
  "example_database =
     \<lparr>Triggers = example_triggers, Scheduled_Triggers = example_schedule,
      GETDATE = on_day 2024 1 5, collation = map of_char\<rparr>"

text \<open>The same tables seen on 31 December 2023: no scheduled run is past.\<close>

definition quiet_database :: database where
  "quiet_database = example_database\<lparr>GETDATE := on_day 2023 12 31\<rparr>"

definition example_world :: world where
  "example_world =
     \<lparr>db_env = (\<lambda>n. Answers example_database), db_calls = 0, open_connections = 0,
      smtp_env = (\<lambda>n. Accepts), smtp_calls = 0, outbox = []\<rparr>"

text \<open>A world whose sixth database session fails after the connection is made.\<close>

definition failing_world :: world where
  "failing_world =
     example_world\<lparr>db_env := (\<lambda>n. if n = 5 then QueryFails else Answers example_database)\<rparr>"

text \<open>
  A world in which the database changes between the fourth and the fifth session:
  the first four see \<open>example_database\<close>, the later ones \<open>quiet_database\<close>.
\<close>

definition changing_world :: world where
  "changing_world =
     example_world\<lparr>db_env := (\<lambda>n. if n < 4 then Answers example_database
                                  else Answers quiet_database)\<rparr>"

text \<open>
  A world whose mail server accepts the message and then answers \<open>QUIT\<close> with
  something other than 221.
\<close>

definition late_failure_world :: world where
  "late_failure_world = example_world\<lparr>smtp_env := (\<lambda>n. AcceptsThenRaises MailTransportError)\<rparr>"

definition example_settings :: email_settings where
  "example_settings =
     \<lparr>from_email = ''rpa@example.org'', to_email = ''ops@example.org'',
      smtp_server = ''smtp.example.org'', smtp_port = ''25''\<rparr>"

definition example_config :: config where
  "example_config = \<lparr>SMTP_SERVER = PStr ''smtp.example.org'', SMTP_PORT = PInt 25\<rparr>"

definition example_arguments :: "(string \<rightharpoonup> pyval) option" where
  "example_arguments =
     Some [''fromEmail'' \<mapsto> PStr ''rpa@example.org'', ''toEmail'' \<mapsto> PStr ''ops@example.org'']"


section \<open>Basic facts\<close>

subsection \<open>Dictionaries and containment\<close>

lemma py_keys_distinct: "distinct (py_keys d)"
  by (simp add: py_keys_def)

lemma impl_of_py_dict_step:
  "DAList.impl_of (foldl (\<lambda>d (k, v). DAList.update k v d) d0 kvs)
     = foldl (\<lambda>xs (k, v). AList.update k v xs) (DAList.impl_of d0) kvs"
  by (induction kvs arbitrary: d0) (auto simp: DAList.update.rep_eq)

lemma impl_of_py_dict:
  "DAList.impl_of (py_dict kvs) = foldl (\<lambda>xs (k, v). AList.update k v xs) [] kvs"
  by (simp add: py_dict_def impl_of_py_dict_step DAList.empty.rep_eq)

lemma update_fresh_key: "k \<notin> fst ` set xs \<Longrightarrow> AList.update k v xs = xs @ [(k, v)]"
  by (induction xs) auto

lemma foldl_update_distinct:
  "distinct (map fst kvs) \<Longrightarrow> foldl (\<lambda>xs (k, v). AList.update k v xs) [] kvs = kvs"
proof (induction kvs rule: rev_induct)
  case Nil
  then show ?case by simp
next
  case (snoc kv kvs)
  then show ?case by (cases kv) (auto simp: update_fresh_key)
qed

lemma impl_of_py_dict_distinct:
  "distinct (map fst kvs) \<Longrightarrow> DAList.impl_of (py_dict kvs) = kvs"
  by (simp add: impl_of_py_dict foldl_update_distinct)

lemma sublist_in_concat:
  assumes "x \<in> set xs"
  shows "sublist x (concat xs)"
proof -
  from assms obtain as bs where "xs = as @ x # bs"
    by (auto simp: in_set_conv_decomp)
  then have "concat xs = concat as @ x @ concat bs" by simp
  then show ?thesis unfolding sublist_def by blast
qed

lemma sublist_wrap: "sublist x y \<Longrightarrow> sublist x (p @ y @ s)"
proof -
  assume "sublist x y"
  then obtain a b where "y = a @ x @ b" unfolding sublist_def by blast
  then have "p @ y @ s = (p @ a) @ x @ (b @ s)" by simp
  then show ?thesis unfolding sublist_def by blast
qed

lemma py_bool_or: "py_bool (py_or a b) = (a \<noteq> [] \<or> b \<noteq> [])"
  by (simp add: py_or_def py_bool_def)

subsection \<open>Tags in a fragment whose texts hold no markup\<close>

lemma occurrences_skip:
  "CHR ''<'' \<notin> set s \<Longrightarrow> occurrences (CHR ''<'' # p) (s @ t) = occurrences (CHR ''<'' # p) t"
  by (induction s) auto

lemma th_cell: "CHR ''<'' \<notin> set k \<Longrightarrow>
   occurrences ''<th>'' (''<th>'' @ k @ ''</th>'' @ rest) = Suc (occurrences ''<th>'' rest)
 \<and> occurrences ''<tr>'' (''<th>'' @ k @ ''</th>'' @ rest) = occurrences ''<tr>'' rest
 \<and> occurrences ''<td>'' (''<th>'' @ k @ ''</th>'' @ rest) = occurrences ''<td>'' rest"
  by (simp add: occurrences_skip)

lemma td_cell: "CHR ''<'' \<notin> set k \<Longrightarrow>
   occurrences ''<th>'' (''<td>'' @ k @ ''</td>'' @ rest) = occurrences ''<th>'' rest
 \<and> occurrences ''<tr>'' (''<td>'' @ k @ ''</td>'' @ rest) = occurrences ''<tr>'' rest
 \<and> occurrences ''<td>'' (''<td>'' @ k @ ''</td>'' @ rest) = Suc (occurrences ''<td>'' rest)"
  by (simp add: occurrences_skip)

lemma th_cells:
  assumes "\<forall>k \<in> set ks. CHR ''<'' \<notin> set k"
  shows "occurrences ''<th>'' (concat (map (\<lambda>k. ''<th>'' @ k @ ''</th>'') ks) @ rest)
           = length ks + occurrences ''<th>'' rest
       \<and> occurrences ''<tr>'' (concat (map (\<lambda>k. ''<th>'' @ k @ ''</th>'') ks) @ rest)
           = occurrences ''<tr>'' rest
       \<and> occurrences ''<td>'' (concat (map (\<lambda>k. ''<th>'' @ k @ ''</th>'') ks) @ rest)
           = occurrences ''<td>'' rest"
  using assms
proof (induction ks)
  case Nil
  then show ?case by simp
next
  case (Cons k ks)
  then have k: "CHR ''<'' \<notin> set k" by simp
  from Cons have IH: "occurrences ''<th>'' (concat (map (\<lambda>k. ''<th>'' @ k @ ''</th>'') ks) @ rest)
           = length ks + occurrences ''<th>'' rest
       \<and> occurrences ''<tr>'' (concat (map (\<lambda>k. ''<th>'' @ k @ ''</th>'') ks) @ rest)
           = occurrences ''<tr>'' rest
       \<and> occurrences ''<td>'' (concat (map (\<lambda>k. ''<th>'' @ k @ ''</th>'') ks) @ rest)
           = occurrences ''<td>'' rest" by simp
  have "concat (map (\<lambda>k. ''<th>'' @ k @ ''</th>'') (k # ks)) @ rest
      = ''<th>'' @ k @ ''</th>'' @ (concat (map (\<lambda>k. ''<th>'' @ k @ ''</th>'') ks) @ rest)"
    by simp
  then show ?case using th_cell[OF k] IH by (simp only:) simp
qed


lemma td_cells:
  assumes "\<forall>v \<in> set vs. CHR ''<'' \<notin> set (py_str v)"
  shows "occurrences ''<th>'' (concat (map (\<lambda>v. ''<td>'' @ py_str v @ ''</td>'') vs) @ rest)
           = occurrences ''<th>'' rest
       \<and> occurrences ''<tr>'' (concat (map (\<lambda>v. ''<td>'' @ py_str v @ ''</td>'') vs) @ rest)
           = occurrences ''<tr>'' rest
       \<and> occurrences ''<td>'' (concat (map (\<lambda>v. ''<td>'' @ py_str v @ ''</td>'') vs) @ rest)
           = length vs + occurrences ''<td>'' rest"
  using assms
proof (induction vs)
  case Nil
  then show ?case by simp
next
  case (Cons v vs)
  then have v: "CHR ''<'' \<notin> set (py_str v)" by simp
  from Cons have IH:
    "occurrences ''<th>'' (concat (map (\<lambda>v. ''<td>'' @ py_str v @ ''</td>'') vs) @ rest)
           = occurrences ''<th>'' rest
       \<and> occurrences ''<tr>'' (concat (map (\<lambda>v. ''<td>'' @ py_str v @ ''</td>'') vs) @ rest)
           = occurrences ''<tr>'' rest
       \<and> occurrences ''<td>'' (concat (map (\<lambda>v. ''<td>'' @ py_str v @ ''</td>'') vs) @ rest)
           = length vs + occurrences ''<td>'' rest" by simp
  have "concat (map (\<lambda>v. ''<td>'' @ py_str v @ ''</td>'') (v # vs)) @ rest
      = ''<td>'' @ py_str v @ ''</td>''
        @ (concat (map (\<lambda>v. ''<td>'' @ py_str v @ ''</td>'') vs) @ rest)"
    by simp
  then show ?case using td_cell[OF v] IH by (simp only:) simp
qed

lemma tr_row:
  assumes "\<forall>v \<in> set vs. CHR ''<'' \<notin> set (py_str v)"
  shows "occurrences ''<th>''
           ((''<tr>'' @ concat (map (\<lambda>v. ''<td>'' @ py_str v @ ''</td>'') vs) @ ''</tr>'') @ rest)
           = occurrences ''<th>'' rest
       \<and> occurrences ''<tr>''
           ((''<tr>'' @ concat (map (\<lambda>v. ''<td>'' @ py_str v @ ''</td>'') vs) @ ''</tr>'') @ rest)
           = Suc (occurrences ''<tr>'' rest)
       \<and> occurrences ''<td>''
           ((''<tr>'' @ concat (map (\<lambda>v. ''<td>'' @ py_str v @ ''</td>'') vs) @ ''</tr>'') @ rest)
           = length vs + occurrences ''<td>'' rest"
  using td_cells[OF assms, of "''</tr>'' @ rest"] by simp

lemma tr_rows:
  assumes "\<forall>row \<in> set rows. \<forall>v \<in> set (py_values row). CHR ''<'' \<notin> set (py_str v)"
  shows "occurrences ''<th>'' (concat (map (\<lambda>row.
             ''<tr>'' @ concat (map (\<lambda>v. ''<td>'' @ py_str v @ ''</td>'') (py_values row))
             @ ''</tr>'') rows) @ rest)
           = occurrences ''<th>'' rest
       \<and> occurrences ''<tr>'' (concat (map (\<lambda>row.
             ''<tr>'' @ concat (map (\<lambda>v. ''<td>'' @ py_str v @ ''</td>'') (py_values row))
             @ ''</tr>'') rows) @ rest)
           = length rows + occurrences ''<tr>'' rest
       \<and> occurrences ''<td>'' (concat (map (\<lambda>row.
             ''<tr>'' @ concat (map (\<lambda>v. ''<td>'' @ py_str v @ ''</td>'') (py_values row))
             @ ''</tr>'') rows) @ rest)
           = sum_list (map (\<lambda>row. length (py_values row)) rows) + occurrences ''<td>'' rest"
  using assms
proof (induction rows)
  case Nil
  then show ?case by simp
next
  case (Cons row rows)
  let ?tr = "\<lambda>row. ''<tr>'' @ concat (map (\<lambda>v. ''<td>'' @ py_str v @ ''</td>'') (py_values row))
             @ ''</tr>''"
  from Cons have r: "\<forall>v \<in> set (py_values row). CHR ''<'' \<notin> set (py_str v)" by simp
  from Cons have IH:
    "occurrences ''<th>'' (concat (map ?tr rows) @ rest) = occurrences ''<th>'' rest
       \<and> occurrences ''<tr>'' (concat (map ?tr rows) @ rest)
           = length rows + occurrences ''<tr>'' rest
       \<and> occurrences ''<td>'' (concat (map ?tr rows) @ rest)
           = sum_list (map (\<lambda>row. length (py_values row)) rows) + occurrences ''<td>'' rest"
    by simp
  have split: "concat (map ?tr (row # rows)) @ rest = ?tr row @ (concat (map ?tr rows) @ rest)"
    by simp
  show ?case
    unfolding split using tr_row[OF r, of "concat (map ?tr rows) @ rest"] IH by simp
qed

lemma table_fragment_tag_counts:
  assumes "data \<noteq> []"
    and "\<forall>k \<in> set (py_keys (hd data)). CHR ''<'' \<notin> set k"
    and "\<forall>row \<in> set data. \<forall>v \<in> set (py_values row). CHR ''<'' \<notin> set (py_str v)"
  shows "occurrences ''<th>'' (convert_to_html_table data) = length (py_keys (hd data))
       \<and> occurrences ''<tr>'' (convert_to_html_table data) = 1 + length data
       \<and> occurrences ''<td>'' (convert_to_html_table data)
           = sum_list (map (\<lambda>row. length (py_values row)) data)"
proof -
  from assms(1) obtain row0 rest where d: "data = row0 # rest" by (cases data) auto
  let ?tr = "\<lambda>row. ''<tr>'' @ concat (map (\<lambda>v. ''<td>'' @ py_str v @ ''</td>'') (py_values row))
             @ ''</tr>''"
  let ?th = "\<lambda>k. ''<th>'' @ k @ ''</th>''"
  have out: "convert_to_html_table data =
      ''<table><thead><tr>'' @ (concat (map ?th (py_keys (hd data)))
        @ (''</tr></thead><tbody>'' @ (concat (map ?tr data) @ ''</tbody></table>'')))"
    unfolding d by (simp add: convert_to_html_table_def)
  note body = tr_rows[OF assms(3), of "''</tbody></table>''"]
  note header = th_cells[OF assms(2),
      of "''</tr></thead><tbody>'' @ (concat (map ?tr data) @ ''</tbody></table>'')"]
  have mid: "occurrences p (''</tr></thead><tbody>'' @ t) = occurrences p t"
    if "p = ''<th>'' \<or> p = ''<tr>'' \<or> p = ''<td>''" for p t
    using that by auto
  have tail: "occurrences p ''</tbody></table>'' = 0"
    if "p = ''<th>'' \<or> p = ''<tr>'' \<or> p = ''<td>''" for p
    using that by auto
  have th: "occurrences ''<th>'' (convert_to_html_table data) = length (py_keys (hd data))"
    unfolding out using header body by (simp add: mid tail)
  have tr: "occurrences ''<tr>'' (convert_to_html_table data) = 1 + length data"
    unfolding out using header body by (simp add: mid tail)
  have td: "occurrences ''<td>'' (convert_to_html_table data)
           = sum_list (map (\<lambda>row. length (py_values row)) data)"
    unfolding out using header body by (simp add: mid tail)
  from th tr td show ?thesis by (intro conjI)
qed

subsection \<open>The queries\<close>

lemma triggers_join_filter:
  "triggers_join db =
     filter (\<lambda>(t, st). t_id t = st_id st) (List.product (Triggers db) (Scheduled_Triggers db))"
proof -
  have inner: "concat (map (\<lambda>st. if t_id t = st_id st then [(t, st)] else []) S)
      = filter (\<lambda>(t, st). t_id t = st_id st) (map (Pair t) S)" for t :: trigger and S :: "scheduled_trigger list"
    by (induction S) auto
  have "concat (map (\<lambda>t. concat (map (\<lambda>st. if t_id t = st_id st then [(t, st)] else []) S)) T)
      = filter (\<lambda>(t, st). t_id t = st_id st) (List.product T S)" for T :: "trigger list" and S :: "scheduled_trigger list"
    by (induction T) (auto simp: inner)
  then show ?thesis by (simp add: triggers_join_def)
qed

lemma missed_runs_condition:
  "sql_where (sql_and (sql_lt lr nr) (sql_gt (Some now) nr))
     \<longleftrightarrow> (\<exists>l n. lr = Some l \<and> nr = Some n \<and> dt_less l n \<and> dt_less n now)"
  by (cases lr; cases nr) (auto simp: sql_where_def sql_and_def sql_lt_def sql_gt_def)

subsection \<open>Database sessions\<close>

lemma fetch_data_cases:
  "fetch_data query w =
     (case db_env w (db_calls w) of
        ConnectFails \<Rightarrow> (Inl DatabaseError, w\<lparr>db_calls := db_calls w + 1\<rparr>)
      | QueryFails \<Rightarrow>
          (Inl DatabaseError,
           w\<lparr>db_calls := db_calls w + 1, open_connections := open_connections w + 1\<rparr>)
      | Answers db \<Rightarrow>
          (Inr (result_set db query), w\<lparr>db_calls := db_calls w + 1\<rparr>))"
  by (cases "db_env w (db_calls w)")
     (simp_all add: fetch_data_def io_bind_def io_return_def get_db_connection_def
        cursor_execute_def conn_close_def result_set_def Let_def split: prod.splits)

lemma fetch_data_frame:
  assumes "fetch_data query w = (r, w')"
  shows "outbox w' = outbox w \<and> db_env w' = db_env w \<and> smtp_env w' = smtp_env w
       \<and> smtp_calls w' = smtp_calls w \<and> db_calls w' = db_calls w + 1"
  using assms unfolding fetch_data_cases by (auto split: db_outcome.splits)

lemma fetch_data_Inl:
  assumes "fetch_data query w = (Inl e, w')"
  shows "e = DatabaseError \<and> (\<forall>db. db_env w (db_calls w) \<noteq> Answers db)"
  using assms unfolding fetch_data_cases by (auto split: db_outcome.splits)

lemma fetch_data_Inr:
  assumes "fetch_data query w = (Inr rows, w')"
  shows "\<exists>db. db_env w (db_calls w) = Answers db \<and> w' = w\<lparr>db_calls := db_calls w + 1\<rparr>"
  using assms unfolding fetch_data_cases by (auto split: db_outcome.splits)

lemma fetch_data_releases_connection_after_success:
  assumes "db_env w (db_calls w) = Answers db"
  shows "open_connections (snd (fetch_data query w)) = open_connections w"
  using assms by (simp add: fetch_data_cases)

subsection \<open>The report, the mail and the run\<close>

lemma all_less_4:
  "(\<forall>i<4::nat. P i) \<longleftrightarrow> P 0 \<and> P (Suc 0) \<and> P (Suc (Suc 0)) \<and> P (Suc (Suc (Suc 0)))"
  by (auto simp: eval_nat_numeral All_less_Suc)

lemma all_less_8:
  "(\<forall>i<8::nat. P i) \<longleftrightarrow> (\<forall>i<4. P i) \<and> (\<forall>i<4. P (4 + i))"
proof
  assume a: "\<forall>i<8. P i"
  show "(\<forall>i<4. P i) \<and> (\<forall>i<4. P (4 + i))" using a by auto
next
  assume a: "(\<forall>i<4. P i) \<and> (\<forall>i<4. P (4 + i))"
  show "\<forall>i<8. P i"
  proof (intro allI impI)
    fix i :: nat assume "i < 8"
    show "P i"
    proof (cases "i < 4")
      case True
      with a show ?thesis by blast
    next
      case False
      with \<open>i < 8\<close> have "i - 4 < 4" and "i = 4 + (i - 4)" by auto
      with a show ?thesis by metis
    qed
  qed
qed

lemma generate_html_report_frame:
  assumes "generate_html_report w = (r, w')"
  shows "outbox w' = outbox w \<and> db_env w' = db_env w \<and> smtp_env w' = smtp_env w
       \<and> smtp_calls w' = smtp_calls w"
  using assms
  unfolding generate_html_report_def missed_runs_report_def overdue_processes_report_def
    process_failure_report_def process_status_report_def io_bind_def io_return_def Let_def
  by (auto split: prod.splits sum.splits dest!: fetch_data_frame)

lemma generate_html_report_Inr:
  assumes "generate_html_report w = (Inr r, w')"
  shows "(\<forall>i<4. \<exists>db. db_env w (db_calls w + i) = Answers db)
       \<and> w' = w\<lparr>db_calls := db_calls w + 4\<rparr>"
  using assms
  unfolding generate_html_report_def missed_runs_report_def overdue_processes_report_def
    process_failure_report_def process_status_report_def io_bind_def io_return_def Let_def
    all_less_4
  by (auto simp: eval_nat_numeral split: prod.splits sum.splits dest!: fetch_data_Inr)

lemma generate_html_report_Inl:
  assumes "generate_html_report w = (Inl e, w')"
  shows "e = DatabaseError \<and> (\<exists>i<4. \<forall>db. db_env w (db_calls w + i) \<noteq> Answers db)"
proof -
  have "e = DatabaseError \<and> \<not> (\<forall>i<4. \<exists>db. db_env w (db_calls w + i) = Answers db)"
    using assms
    unfolding generate_html_report_def missed_runs_report_def overdue_processes_report_def
      process_failure_report_def process_status_report_def io_bind_def io_return_def Let_def
      all_less_4
    by (auto simp: eval_nat_numeral split: prod.splits sum.splits dest!: fetch_data_Inr fetch_data_Inl)
  then show ?thesis by blast
qed

lemma generate_html_report_eq:
  assumes "db_env w (db_calls w) = Answers db0"
    and "db_env w (Suc (db_calls w)) = Answers db1"
    and "db_env w (Suc (Suc (db_calls w))) = Answers db2"
    and "db_env w (Suc (Suc (Suc (db_calls w)))) = Answers db3"
  shows "generate_html_report w =
     (Inr (template_render
             (convert_to_html_table (result_set db0 MissedRunsQuery))
             (convert_to_html_table (result_set db1 OverdueProcessesQuery))
             (convert_to_html_table (result_set db2 ProcessFailureQuery))
             (convert_to_html_table (result_set db3 ProcessStatusQuery)),
           result_set db0 MissedRunsQuery \<noteq> [] \<or> result_set db1 OverdueProcessesQuery \<noteq> []),
      w\<lparr>db_calls := db_calls w + 4\<rparr>)"
  using assms
  by (simp add: generate_html_report_def missed_runs_report_def overdue_processes_report_def
      process_failure_report_def process_status_report_def io_bind_def io_return_def Let_def
      fetch_data_cases py_bool_or)

lemma smtp_send_message_cases:
  "smtp_send_message settings msg w =
     (case smtp_env w (smtp_calls w) of
        Accepts \<Rightarrow>
          (Inr (), w\<lparr>smtp_calls := smtp_calls w + 1,
                     outbox := outbox w @ [\<lparr>to_server = smtp_server settings,
                        to_port = smtp_port settings, submitted = msg\<rparr>]\<rparr>)
      | AcceptsThenRaises e \<Rightarrow>
          (Inl e, w\<lparr>smtp_calls := smtp_calls w + 1,
                    outbox := outbox w @ [\<lparr>to_server = smtp_server settings,
                       to_port = smtp_port settings, submitted = msg\<rparr>]\<rparr>)
      | _ \<Rightarrow> (Inl MailTransportError, w\<lparr>smtp_calls := smtp_calls w + 1\<rparr>))"
  by (cases "smtp_env w (smtp_calls w)") (simp_all add: smtp_send_message_def Let_def)

lemma smtp_send_message_outcomes:
  assumes "smtp_send_message settings msg w = (r, w')"
  shows "(r = Inl MailTransportError \<and> outbox w' = outbox w)
       \<or> outbox w' = outbox w @ [\<lparr>to_server = smtp_server settings,
                        to_port = smtp_port settings, submitted = msg\<rparr>]"
  using assms unfolding smtp_send_message_cases
  by (cases "smtp_env w (smtp_calls w)") auto

lemma send_email_cases:
  "send_email settings arg w =
     (case generate_html_report w of
        (Inl e, w1) \<Rightarrow> (Inl e, w1)
      | (Inr (html_content, alert_flag), w1) \<Rightarrow>
          smtp_send_message settings (email_message settings html_content alert_flag) w1)"
  by (simp add: send_email_def io_bind_def split: prod.splits sum.splits)

lemma send_email_outcomes:
  assumes "send_email settings arg w = (r, w')"
  shows "(outbox w' = outbox w \<and> (\<exists>e. r = Inl e))
       \<or> (\<exists>html_content alert_flag.
                generate_html_report w
                  = (Inr (html_content, alert_flag), w\<lparr>db_calls := db_calls w + 4\<rparr>)
              \<and> outbox w' = outbox w @ [\<lparr>to_server = smtp_server settings,
                    to_port = smtp_port settings,
                    submitted = email_message settings html_content alert_flag\<rparr>])"
proof -
  obtain g w1 where g: "generate_html_report w = (g, w1)" by fastforce
  note fr = generate_html_report_frame[OF g]
  show ?thesis
  proof (cases g)
    case (Inl e)
    with g assms fr show ?thesis by (auto simp: send_email_cases)
  next
    case (Inr p)
    obtain html_content alert_flag where p: "p = (html_content, alert_flag)" by (cases p)
    from g Inr generate_html_report_Inr[of w p w1] have w1: "w1 = w\<lparr>db_calls := db_calls w + 4\<rparr>"
      by simp
    from g Inr p assms have
      "smtp_send_message settings (email_message settings html_content alert_flag) w1 = (r, w')"
      by (simp add: send_email_cases)
    from smtp_send_message_outcomes[OF this] show ?thesis using g Inr p w1 fr
      by auto
  qed
qed

lemma email_message_headers:
  "msg_headers (email_message settings html_content alert_flag) =
     [(''Content-Type'', ''multipart/mixed''), (''MIME-Version'', ''1.0'')]
     @ (if alert_flag
        then [(''X-Priority'', ''1''), (''X-MSMail-Priority'', ''High''), (''Importance'', ''High'')]
        else [])
     @ [(''From'', from_email settings), (''To'', to_email settings),
        (''Subject'', if alert_flag then ''RPA - Driftsrapport'' @ warning_suffix
                      else ''RPA - Driftsrapport'')]"
  by (simp add: email_message_def MIMEMultipart_def set_header_def attach_def Let_def)

lemma suffix_not_in_plain_subject: "\<not> sublist warning_suffix ''RPA - Driftsrapport''"
  by (simp add: warning_suffix_def sublist_code)

lemma process_without_arguments:
  "process cfg None w = (Inl ConfigurationError, w)"
  by (simp add: process_def)

lemma process_with_arguments:
  assumes "oc_args_json ''fromEmail'' = Some from_v" and "oc_args_json ''toEmail'' = Some to_v"
  shows "process cfg (Some oc_args_json) =
     io_bind generate_html_report
       (send_email \<lparr>from_email = py_str from_v, to_email = py_str to_v,
                     smtp_server = py_str (SMTP_SERVER cfg), smtp_port = py_str (SMTP_PORT cfg)\<rparr>)"
  using assms by (simp add: process_def Let_def)

lemma process_missing_key:
  assumes "oc_args_json ''fromEmail'' = None \<or> oc_args_json ''toEmail'' = None"
  shows "process cfg (Some oc_args_json) w = (Inl ConfigurationError, w)"
  using assms by (auto simp: process_def split: option.splits)

text \<open>What a run sends, when its arguments are well formed.\<close>

lemma run_outcomes:
  assumes run: "io_bind generate_html_report (send_email settings) w = (r, w')"
  shows "(r = Inl DatabaseError \<and> outbox w' = outbox w
            \<and> (\<exists>i<8. \<forall>db. db_env w (db_calls w + i) \<noteq> Answers db))
       \<or> (r = Inl MailTransportError \<and> outbox w' = outbox w
            \<and> (\<forall>i<8. \<exists>db. db_env w (db_calls w + i) = Answers db))
       \<or> ((\<forall>i<8. \<exists>db. db_env w (db_calls w + i) = Answers db)
            \<and> (\<exists>html_content alert_flag w2.
                  generate_html_report (w\<lparr>db_calls := db_calls w + 4\<rparr>)
                    = (Inr (html_content, alert_flag), w2)
                \<and> outbox w' = outbox w @ [\<lparr>to_server = smtp_server settings,
                      to_port = smtp_port settings,
                      submitted = email_message settings html_content alert_flag\<rparr>]))"
proof -
  obtain g w1 where g: "generate_html_report w = (g, w1)" by fastforce
  note fr1 = generate_html_report_frame[OF g]
  show ?thesis
  proof (cases g)
    case (Inl e)
    with g run have "r = Inl e" "w' = w1" by (simp_all add: io_bind_def)
    moreover from g Inl generate_html_report_Inl[of w e w1]
    have "e = DatabaseError" and "\<exists>i<4. \<forall>db. db_env w (db_calls w + i) \<noteq> Answers db"
      by simp_all
    then have "e = DatabaseError" and "\<exists>i<8. \<forall>db. db_env w (db_calls w + i) \<noteq> Answers db"
      by (simp, meson less_trans[of _ 4 8] numeral_less_iff semiring_norm)
    ultimately show ?thesis using fr1 by simp
  next
    case (Inr html_report)
    from g Inr generate_html_report_Inr[of w html_report w1]
    have first: "\<forall>i<4. \<exists>db. db_env w (db_calls w + i) = Answers db"
      and w1: "w1 = w\<lparr>db_calls := db_calls w + 4\<rparr>" by simp_all
    from g Inr run have s: "send_email settings html_report w1 = (r, w')"
      by (simp add: io_bind_def)
    obtain g2 w2 where g2: "generate_html_report w1 = (g2, w2)" by fastforce
    note fr2 = generate_html_report_frame[OF g2]
    show ?thesis
    proof (cases g2)
      case (Inl e)
      with g2 s have "r = Inl e" "w' = w2" by (simp_all add: send_email_cases)
      moreover from g2 Inl generate_html_report_Inl[of w1 e w2]
      have "e = DatabaseError" and "\<exists>i<4. \<forall>db. db_env w1 (db_calls w1 + i) \<noteq> Answers db"
        by simp_all
      then have "e = DatabaseError" and "\<exists>i<4. \<forall>db. db_env w (db_calls w + (4 + i)) \<noteq> Answers db"
        by (simp_all add: w1 add.assoc)
      then have "e = DatabaseError" and "\<not> (\<forall>i<8. \<exists>db. db_env w (db_calls w + i) = Answers db)"
        unfolding all_less_8 by auto
      ultimately show ?thesis using fr1 fr2 by auto
    next
      case (Inr p)
      obtain html_content alert_flag where p: "p = (html_content, alert_flag)" by (cases p)
      from g2 Inr generate_html_report_Inr[of w1 p w2]
      have "\<forall>i<4. \<exists>db. db_env w1 (db_calls w1 + i) = Answers db" by simp
      then have "\<forall>i<4. \<exists>db. db_env w (db_calls w + (4 + i)) = Answers db"
        by (simp add: w1 add.assoc)
      with first have all: "\<forall>i<8. \<exists>db. db_env w (db_calls w + i) = Answers db"
        unfolding all_less_8 by simp
      from g2 Inr p s have
        m: "smtp_send_message settings (email_message settings html_content alert_flag) w2 = (r, w')"
        by (simp add: send_email_cases)
      from smtp_send_message_outcomes[OF m] show ?thesis
      proof
        assume "r = Inl MailTransportError \<and> outbox w' = outbox w2"
        with all fr1 fr2 show ?thesis by auto
      next
        assume "outbox w' = outbox w2 @ [\<lparr>to_server = smtp_server settings,
              to_port = smtp_port settings,
              submitted = email_message settings html_content alert_flag\<rparr>]"
        with all g2 Inr p w1 fr1 fr2 show ?thesis by auto
      qed
    qed
  qed
qed

subsection \<open>The example data\<close>

lemma example_missed_runs_selection:
  "missed_runs_selection example_database =
     [(example_triggers ! 1, example_schedule ! 0), (example_triggers ! 0, example_schedule ! 1)]"
  by (simp add: missed_runs_selection_def example_database_def example_triggers_def
      example_schedule_def triggers_join_def sql_where_def sql_and_def sql_lt_def sql_gt_def
      dt_less_def dt_key_def on_day_def)

lemma example_missed_runs:
  "result_set example_database MissedRunsQuery =
     [py_dict [(''trigger_name'', PStr ''Invoices''), (''process_name'', PStr ''P1''),
               (''last_run'', PDatetime (on_day 2024 1 1)),
               (''next_run'', PDatetime (on_day 2024 1 2))],
      py_dict [(''trigger_name'', PStr ''Payroll''), (''process_name'', PStr ''P2''),
               (''last_run'', PDatetime (on_day 2024 1 1)),
               (''next_run'', PDatetime (on_day 2024 1 2))]]"
  by (simp add: result_set_def example_missed_runs_selection py_of_datetime_def)
     (simp add: example_triggers_def example_schedule_def)

lemma example_world_answers: "db_env example_world n = Answers example_database"
  by (simp add: example_world_def)

lemma example_report:
  "generate_html_report example_world =
     (Inr (template_render
             (convert_to_html_table (result_set example_database MissedRunsQuery))
             (convert_to_html_table (result_set example_database OverdueProcessesQuery))
             (convert_to_html_table (result_set example_database ProcessFailureQuery))
             (convert_to_html_table (result_set example_database ProcessStatusQuery)),
           True),
      example_world\<lparr>db_calls := 4\<rparr>)"
proof -
  have "result_set example_database MissedRunsQuery \<noteq> []"
    by (simp add: example_missed_runs)
  moreover have "db_calls example_world = 0" by (simp add: example_world_def)
  ultimately show ?thesis
    using generate_html_report_eq[of example_world example_database example_database
        example_database example_database]
    by (simp add: example_world_answers)
qed

lemma quiet_database_no_alert:
  "result_set quiet_database MissedRunsQuery = []
   \<and> result_set quiet_database OverdueProcessesQuery = []"
  by (simp add: result_set_def missed_runs_selection_def overdue_processes_selection_def
      quiet_database_def example_database_def example_triggers_def example_schedule_def
      triggers_join_def sql_where_def sql_and_def sql_lt_def sql_gt_def dt_less_def dt_key_def
      on_day_def)

lemma example_mail:
  "send_email example_settings arg example_world =
     (Inr (), example_world\<lparr>db_calls := 4, smtp_calls := 1,
        outbox := [\<lparr>to_server = ''smtp.example.org'', to_port = ''25'',
          submitted = email_message example_settings
            (template_render
               (convert_to_html_table (result_set example_database MissedRunsQuery))
               (convert_to_html_table (result_set example_database OverdueProcessesQuery))
               (convert_to_html_table (result_set example_database ProcessFailureQuery))
               (convert_to_html_table (result_set example_database ProcessStatusQuery)))
            True\<rparr>]\<rparr>)"
  by (simp add: send_email_cases example_report smtp_send_message_cases)
     (simp add: example_world_def example_settings_def)

text \<open>An exception of \<open>send_email\<close> does not mean that nothing was submitted.\<close>

lemma send_email_can_raise_after_submission:
  "fst (send_email example_settings arg late_failure_world) = Inl MailTransportError
   \<and> length (outbox (snd (send_email example_settings arg late_failure_world))) = 1"
proof -
  have "result_set example_database MissedRunsQuery \<noteq> []"
    by (simp add: example_missed_runs)
  then have "generate_html_report late_failure_world =
     (Inr (template_render
             (convert_to_html_table (result_set example_database MissedRunsQuery))
             (convert_to_html_table (result_set example_database OverdueProcessesQuery))
             (convert_to_html_table (result_set example_database ProcessFailureQuery))
             (convert_to_html_table (result_set example_database ProcessStatusQuery)),
           True),
      late_failure_world\<lparr>db_calls := 4\<rparr>)"
    using generate_html_report_eq[of late_failure_world example_database example_database
        example_database example_database]
    by (simp add: late_failure_world_def example_world_def)
  then show ?thesis
    by (simp add: send_email_cases smtp_send_message_cases)
       (simp add: late_failure_world_def example_world_def)
qed

lemma changing_world_first_report:
  "generate_html_report changing_world =
     (Inr (template_render
             (convert_to_html_table (result_set example_database MissedRunsQuery))
             (convert_to_html_table (result_set example_database OverdueProcessesQuery))
             (convert_to_html_table (result_set example_database ProcessFailureQuery))
             (convert_to_html_table (result_set example_database ProcessStatusQuery)),
           True),
      changing_world\<lparr>db_calls := 4\<rparr>)"
proof -
  have "result_set example_database MissedRunsQuery \<noteq> []"
    by (simp add: example_missed_runs)
  then show ?thesis
    using generate_html_report_eq[of changing_world example_database example_database
        example_database example_database]
    by (simp add: changing_world_def example_world_def)
qed

lemma changing_world_second_report:
  "generate_html_report (changing_world\<lparr>db_calls := 4\<rparr>) =
     (Inr (template_render
             (convert_to_html_table (result_set quiet_database MissedRunsQuery))
             (convert_to_html_table (result_set quiet_database OverdueProcessesQuery))
             (convert_to_html_table (result_set quiet_database ProcessFailureQuery))
             (convert_to_html_table (result_set quiet_database ProcessStatusQuery)),
           False),
      changing_world\<lparr>db_calls := 8\<rparr>)"
  using generate_html_report_eq[of "changing_world\<lparr>db_calls := 4\<rparr>" quiet_database
      quiet_database quiet_database quiet_database] quiet_database_no_alert
  by (simp add: changing_world_def example_world_def)


section \<open>The alert flag\<close>

text \<open>
  Claim C1. \<open>generate_html_report\<close> returns a report and an alert flag exactly when
  its four reports, fetched one after the other and each once, return result sets;
  the flag is then true if and only if the missed-runs result set or the
  overdue-processes result set is not empty, whatever the two emptiness conditions
  are, and the HTML returned with the flag is the template filled with the tables of
  these same four result sets.
\<close>

theorem alert_flag_from_rendered_result_sets:
  "generate_html_report w = (Inr (html_content, alert_flag), w') \<longleftrightarrow>
   (\<exists>missed_runs overdue_processes process_failures process_status w1 w2 w3.
      missed_runs_report w = (Inr missed_runs, w1)
    \<and> overdue_processes_report w1 = (Inr overdue_processes, w2)
    \<and> process_failure_report w2 = (Inr process_failures, w3)
    \<and> process_status_report w3 = (Inr process_status, w')
    \<and> alert_flag = (missed_runs \<noteq> [] \<or> overdue_processes \<noteq> [])
    \<and> html_content =
        template_render (convert_to_html_table missed_runs)
          (convert_to_html_table overdue_processes)
          (convert_to_html_table process_failures)
          (convert_to_html_table process_status))"
proof
  assume "generate_html_report w = (Inr (html_content, alert_flag), w')"
  then show "\<exists>missed_runs overdue_processes process_failures process_status w1 w2 w3.
      missed_runs_report w = (Inr missed_runs, w1)
    \<and> overdue_processes_report w1 = (Inr overdue_processes, w2)
    \<and> process_failure_report w2 = (Inr process_failures, w3)
    \<and> process_status_report w3 = (Inr process_status, w')
    \<and> alert_flag = (missed_runs \<noteq> [] \<or> overdue_processes \<noteq> [])
    \<and> html_content =
        template_render (convert_to_html_table missed_runs)
          (convert_to_html_table overdue_processes)
          (convert_to_html_table process_failures)
          (convert_to_html_table process_status)"
    by (auto simp: generate_html_report_def io_bind_def io_return_def Let_def py_bool_or
        split: prod.splits sum.splits)
next
  assume "\<exists>missed_runs overdue_processes process_failures process_status w1 w2 w3.
      missed_runs_report w = (Inr missed_runs, w1)
    \<and> overdue_processes_report w1 = (Inr overdue_processes, w2)
    \<and> process_failure_report w2 = (Inr process_failures, w3)
    \<and> process_status_report w3 = (Inr process_status, w')
    \<and> alert_flag = (missed_runs \<noteq> [] \<or> overdue_processes \<noteq> [])
    \<and> html_content =
        template_render (convert_to_html_table missed_runs)
          (convert_to_html_table overdue_processes)
          (convert_to_html_table process_failures)
          (convert_to_html_table process_status)"
  then obtain missed_runs overdue_processes process_failures process_status w1 w2 w3 where
    "missed_runs_report w = (Inr missed_runs, w1)"
    "overdue_processes_report w1 = (Inr overdue_processes, w2)"
    "process_failure_report w2 = (Inr process_failures, w3)"
    "process_status_report w3 = (Inr process_status, w')"
    "alert_flag = (missed_runs \<noteq> [] \<or> overdue_processes \<noteq> [])"
    "html_content =
        template_render (convert_to_html_table missed_runs)
          (convert_to_html_table overdue_processes)
          (convert_to_html_table process_failures)
          (convert_to_html_table process_status)"
    by blast
  then show "generate_html_report w = (Inr (html_content, alert_flag), w')"
    by (simp add: generate_html_report_def io_bind_def io_return_def Let_def py_bool_or)
qed

theorem alert_flag_from_rendered_result_sets_witness:
  "generate_html_report example_world =
     (Inr (template_render
             (convert_to_html_table (result_set example_database MissedRunsQuery))
             (convert_to_html_table (result_set example_database OverdueProcessesQuery))
             (convert_to_html_table (result_set example_database ProcessFailureQuery))
             (convert_to_html_table (result_set example_database ProcessStatusQuery)),
           True),
      example_world\<lparr>db_calls := 4\<rparr>)
   \<and> (\<exists>missed_runs overdue_processes w1 w2.
         missed_runs_report example_world = (Inr missed_runs, w1)
       \<and> overdue_processes_report w1 = (Inr overdue_processes, w2)
       \<and> True = (missed_runs \<noteq> [] \<or> overdue_processes \<noteq> []))"
proof -
  from alert_flag_from_rendered_result_sets[THEN iffD1, OF example_report]
  have "\<exists>missed_runs overdue_processes w1 w2.
         missed_runs_report example_world = (Inr missed_runs, w1)
       \<and> overdue_processes_report w1 = (Inr overdue_processes, w2)
       \<and> True = (missed_runs \<noteq> [] \<or> overdue_processes \<noteq> [])"
    by blast
  with example_report show ?thesis by (rule conjI)
qed


section \<open>The missed-runs query\<close>

text \<open>
  Claim C2. When the session of \<open>missed_runs_report\<close> sees the database \<open>db\<close>, the
  report is one row per selected pair of a trigger and its schedule entry (joined on
  \<open>id\<close>). The selected pairs are exactly those, with their multiplicity in the join,
  whose last run is a timestamp strictly earlier than the next scheduled run and whose
  next scheduled run is strictly earlier than \<open>GETDATE()\<close>. They come ordered by the
  sort key of the trigger name, ascending, and each row has the columns
  \<open>trigger_name\<close>, \<open>process_name\<close>, \<open>last_run\<close>, \<open>next_run\<close> in this order.
\<close>

theorem missed_runs_query_selects_and_orders:
  assumes "db_env w (db_calls w) = Answers db"
  shows "\<exists>selection.
      fst (missed_runs_report w) =
        Inr (map (\<lambda>(t, st). py_dict
              [(''trigger_name'', PStr (trigger_name t)), (''process_name'', PStr (process_name t)),
               (''last_run'', py_of_datetime (last_run t)),
               (''next_run'', py_of_datetime (next_run st))]) selection)
    \<and> mset selection =
        filter_mset
          (\<lambda>(t, st). t_id t = st_id st \<and>
             (\<exists>l n. last_run t = Some l \<and> next_run st = Some n \<and> dt_less l n
                    \<and> dt_less n (GETDATE db)))
          (mset (List.product (Triggers db) (Scheduled_Triggers db)))
    \<and> sorted (map (\<lambda>(t, st). collation db (trigger_name t)) selection)
    \<and> (\<forall>(t, st) \<in> set selection.
          py_keys (py_dict
              [(''trigger_name'', PStr (trigger_name t)), (''process_name'', PStr (process_name t)),
               (''last_run'', py_of_datetime (last_run t)),
               (''next_run'', py_of_datetime (next_run st))])
          = [''trigger_name'', ''process_name'', ''last_run'', ''next_run''])"
proof -
  let ?sel = "missed_runs_selection db"
  have res: "fst (missed_runs_report w) =
        Inr (map (\<lambda>(t, st). py_dict
              [(''trigger_name'', PStr (trigger_name t)), (''process_name'', PStr (process_name t)),
               (''last_run'', py_of_datetime (last_run t)),
               (''next_run'', py_of_datetime (next_run st))]) ?sel)"
    using assms by (simp add: missed_runs_report_def fetch_data_cases result_set_def split_def)
  have ms: "mset ?sel =
        filter_mset
          (\<lambda>(t, st). t_id t = st_id st \<and>
             (\<exists>l n. last_run t = Some l \<and> next_run st = Some n \<and> dt_less l n
                    \<and> dt_less n (GETDATE db)))
          (mset (List.product (Triggers db) (Scheduled_Triggers db)))"
    unfolding missed_runs_selection_def triggers_join_filter
    by (simp add: missed_runs_condition split_def conj_commute cong: conj_cong)
  have so: "sorted (map (\<lambda>(t, st). collation db (trigger_name t)) ?sel)"
    unfolding missed_runs_selection_def by (rule sorted_sort_key)
  have keys: "\<forall>(t, st) \<in> set ?sel.
          py_keys (py_dict
              [(''trigger_name'', PStr (trigger_name t)), (''process_name'', PStr (process_name t)),
               (''last_run'', py_of_datetime (last_run t)),
               (''next_run'', py_of_datetime (next_run st))])
          = [''trigger_name'', ''process_name'', ''last_run'', ''next_run'']"
    by (simp add: py_keys_def impl_of_py_dict_distinct split_def)
  show ?thesis using res ms so keys by blast
qed

theorem missed_runs_query_selects_and_orders_witness:
  "db_env example_world (db_calls example_world) = Answers example_database
   \<and> fst (missed_runs_report example_world) =
       Inr [py_dict [(''trigger_name'', PStr ''Invoices''), (''process_name'', PStr ''P1''),
                     (''last_run'', PDatetime (on_day 2024 1 1)),
                     (''next_run'', PDatetime (on_day 2024 1 2))],
            py_dict [(''trigger_name'', PStr ''Payroll''), (''process_name'', PStr ''P2''),
                     (''last_run'', PDatetime (on_day 2024 1 1)),
                     (''next_run'', PDatetime (on_day 2024 1 2))]]
   \<and> (\<exists>selection.
         mset selection =
           filter_mset
             (\<lambda>(t, st). t_id t = st_id st \<and>
                (\<exists>l n. last_run t = Some l \<and> next_run st = Some n \<and> dt_less l n
                       \<and> dt_less n (GETDATE example_database)))
             (mset (List.product (Triggers example_database)
                      (Scheduled_Triggers example_database)))
       \<and> sorted (map (\<lambda>(t, st). collation example_database (trigger_name t)) selection)
       \<and> length selection = 2)"
proof -
  have h: "db_env example_world (db_calls example_world) = Answers example_database"
    by (rule example_world_answers)
  have r: "fst (missed_runs_report example_world) =
       Inr [py_dict [(''trigger_name'', PStr ''Invoices''), (''process_name'', PStr ''P1''),
                     (''last_run'', PDatetime (on_day 2024 1 1)),
                     (''next_run'', PDatetime (on_day 2024 1 2))],
            py_dict [(''trigger_name'', PStr ''Payroll''), (''process_name'', PStr ''P2''),
                     (''last_run'', PDatetime (on_day 2024 1 1)),
                     (''next_run'', PDatetime (on_day 2024 1 2))]]"
    using h by (simp add: missed_runs_report_def fetch_data_cases example_missed_runs)
  from missed_runs_query_selects_and_orders[OF h] obtain selection where
    res: "fst (missed_runs_report example_world) =
        Inr (map (\<lambda>(t, st). py_dict
              [(''trigger_name'', PStr (trigger_name t)), (''process_name'', PStr (process_name t)),
               (''last_run'', py_of_datetime (last_run t)),
               (''next_run'', py_of_datetime (next_run st))]) selection)"
    and ms: "mset selection =
           filter_mset
             (\<lambda>(t, st). t_id t = st_id st \<and>
                (\<exists>l n. last_run t = Some l \<and> next_run st = Some n \<and> dt_less l n
                       \<and> dt_less n (GETDATE example_database)))
             (mset (List.product (Triggers example_database)
                      (Scheduled_Triggers example_database)))"
    and so: "sorted (map (\<lambda>(t, st). collation example_database (trigger_name t)) selection)"
    by blast
  let ?f = "\<lambda>(t, st). py_dict
              [(''trigger_name'', PStr (trigger_name t)), (''process_name'', PStr (process_name t)),
               (''last_run'', py_of_datetime (last_run t)),
               (''next_run'', py_of_datetime (next_run st))]"
  let ?rows = "[py_dict [(''trigger_name'', PStr ''Invoices''), (''process_name'', PStr ''P1''),
                     (''last_run'', PDatetime (on_day 2024 1 1)),
                     (''next_run'', PDatetime (on_day 2024 1 2))],
            py_dict [(''trigger_name'', PStr ''Payroll''), (''process_name'', PStr ''P2''),
                     (''last_run'', PDatetime (on_day 2024 1 1)),
                     (''next_run'', PDatetime (on_day 2024 1 2))]]"
  from trans[OF res[symmetric] r] have "map ?f selection = ?rows"
    by (simp only: sum.inject)
  then have "length (map ?f selection) = length ?rows" by (rule arg_cong)
  then have "length selection = 2" by simp
  with ms so have "\<exists>selection.
         mset selection =
           filter_mset
             (\<lambda>(t, st). t_id t = st_id st \<and>
                (\<exists>l n. last_run t = Some l \<and> next_run st = Some n \<and> dt_less l n
                       \<and> dt_less n (GETDATE example_database)))
             (mset (List.product (Triggers example_database)
                      (Scheduled_Triggers example_database)))
       \<and> sorted (map (\<lambda>(t, st). collation example_database (trigger_name t)) selection)
       \<and> length selection = 2" by blast
  then show ?thesis by (intro conjI h r)
qed


section \<open>The table fragment\<close>

text \<open>
  Claim C3. For a non-empty list of rows the fragment is the table element around a
  header row and a body. The header row is one \<open>th\<close> cell per key of the first row, in
  that row's key order, the keys being distinct; the body is one \<open>tr\<close> row per entry
  of the list, in the order of the list, and the cells of a body row are the \<open>str\<close> of
  the values of its entry, in order. Read as text, the fragment then holds exactly one
  \<open><th>\<close> per key, one \<open><tr>\<close> for the header row and one per entry, and one
  \<open><td>\<close> per value, as long as no key and no value text holds the character \<open><\<close>
  (values are not escaped, see claim C7).
\<close>

theorem table_fragment_structure:
  assumes "data \<noteq> []"
  shows "(\<exists>header_cells body_rows.
      convert_to_html_table data =
        ''<table><thead><tr>'' @ concat header_cells @ ''</tr></thead><tbody>''
        @ concat body_rows @ ''</tbody></table>''
    \<and> header_cells = map (\<lambda>k. ''<th>'' @ k @ ''</th>'') (py_keys (hd data))
    \<and> distinct (py_keys (hd data))
    \<and> length header_cells = card (set (py_keys (hd data)))
    \<and> length body_rows = length data
    \<and> (\<forall>i < length data. body_rows ! i =
          ''<tr>'' @ concat (map (\<lambda>v. ''<td>'' @ py_str v @ ''</td>'') (py_values (data ! i)))
          @ ''</tr>''))
    \<and> ((\<forall>k \<in> set (py_keys (hd data)). CHR ''<'' \<notin> set k)
        \<and> (\<forall>row \<in> set data. \<forall>v \<in> set (py_values row). CHR ''<'' \<notin> set (py_str v)) \<longrightarrow>
          occurrences ''<th>'' (convert_to_html_table data) = card (set (py_keys (hd data)))
        \<and> occurrences ''<tr>'' (convert_to_html_table data) = 1 + length data
        \<and> occurrences ''<td>'' (convert_to_html_table data)
            = sum_list (map (\<lambda>row. length (py_values row)) data))"
proof -
  from assms obtain row0 rest where d: "data = row0 # rest"
    by (cases data) auto
  let ?hc = "map (\<lambda>k. ''<th>'' @ k @ ''</th>'') (py_keys (hd data))"
  let ?br = "map (\<lambda>row. ''<tr>'' @ concat (map (\<lambda>v. ''<td>'' @ py_str v @ ''</td>'') (py_values row))
                 @ ''</tr>'') data"
  have out: "convert_to_html_table data =
        ''<table><thead><tr>'' @ concat ?hc @ ''</tr></thead><tbody>''
        @ concat ?br @ ''</tbody></table>''"
    unfolding d by (simp add: convert_to_html_table_def)
  have card: "length ?hc = card (set (py_keys (hd data)))"
    by (simp add: distinct_card py_keys_distinct)
  have nth: "\<forall>i < length data. ?br ! i =
          ''<tr>'' @ concat (map (\<lambda>v. ''<td>'' @ py_str v @ ''</td>'') (py_values (data ! i)))
          @ ''</tr>''"
    by simp
  have cells: "\<exists>header_cells body_rows.
      convert_to_html_table data =
        ''<table><thead><tr>'' @ concat header_cells @ ''</tr></thead><tbody>''
        @ concat body_rows @ ''</tbody></table>''
    \<and> header_cells = map (\<lambda>k. ''<th>'' @ k @ ''</th>'') (py_keys (hd data))
    \<and> distinct (py_keys (hd data))
    \<and> length header_cells = card (set (py_keys (hd data)))
    \<and> length body_rows = length data
    \<and> (\<forall>i < length data. body_rows ! i =
          ''<tr>'' @ concat (map (\<lambda>v. ''<td>'' @ py_str v @ ''</td>'') (py_values (data ! i)))
          @ ''</tr>'')"
    using out card nth py_keys_distinct[of "hd data"]
    by (intro exI[of _ ?hc] exI[of _ ?br]) simp
  have tags: "(\<forall>k \<in> set (py_keys (hd data)). CHR ''<'' \<notin> set k)
        \<and> (\<forall>row \<in> set data. \<forall>v \<in> set (py_values row). CHR ''<'' \<notin> set (py_str v)) \<longrightarrow>
          occurrences ''<th>'' (convert_to_html_table data) = card (set (py_keys (hd data)))
        \<and> occurrences ''<tr>'' (convert_to_html_table data) = 1 + length data
        \<and> occurrences ''<td>'' (convert_to_html_table data)
            = sum_list (map (\<lambda>row. length (py_values row)) data)"
    using table_fragment_tag_counts[OF assms] by (simp add: distinct_card py_keys_distinct)
  from cells tags show ?thesis by (rule conjI)
qed

theorem table_fragment_structure_witness:
  "[py_dict [(''trigger_name'', PStr ''T1''), (''process_name'', PStr ''P1''),
             (''last_run'', PDatetime (on_day 2024 1 1)), (''next_run'', PNone)]] \<noteq> []
   \<and> convert_to_html_table
       [py_dict [(''trigger_name'', PStr ''T1''), (''process_name'', PStr ''P1''),
                 (''last_run'', PDatetime (on_day 2024 1 1)), (''next_run'', PNone)]]
     = ''<table><thead><tr><th>trigger_name</th><th>process_name</th><th>last_run</th><th>next_run</th></tr></thead><tbody><tr><td>T1</td><td>P1</td><td>2024-01-01 00:00:00</td><td>None</td></tr></tbody></table>''
   \<and> occurrences ''<th>'' (convert_to_html_table
       [py_dict [(''trigger_name'', PStr ''T1''), (''process_name'', PStr ''P1''),
                 (''last_run'', PDatetime (on_day 2024 1 1)), (''next_run'', PNone)]]) = 4
   \<and> occurrences ''<tr>'' (convert_to_html_table
       [py_dict [(''trigger_name'', PStr ''T1''), (''process_name'', PStr ''P1''),
                 (''last_run'', PDatetime (on_day 2024 1 1)), (''next_run'', PNone)]]) = 2
   \<and> occurrences ''<td>'' (convert_to_html_table
       [py_dict [(''trigger_name'', PStr ''T1''), (''process_name'', PStr ''P1''),
                 (''last_run'', PDatetime (on_day 2024 1 1)), (''next_run'', PNone)]]) = 4"
proof -
  let ?row = "py_dict [(''trigger_name'', PStr ''T1''), (''process_name'', PStr ''P1''),
                 (''last_run'', PDatetime (on_day 2024 1 1)), (''next_run'', PNone)]"
  have ne: "[?row] \<noteq> []" by simp
  note inst = table_fragment_structure[OF ne]
  from inst[THEN conjunct1] obtain header_cells body_rows where
    out: "convert_to_html_table [?row] =
        ''<table><thead><tr>'' @ concat header_cells @ ''</tr></thead><tbody>''
        @ concat body_rows @ ''</tbody></table>''"
    and hc: "header_cells = map (\<lambda>k. ''<th>'' @ k @ ''</th>'') (py_keys (hd [?row]))"
    and len: "length body_rows = length [?row]"
    and rows: "\<forall>i < length [?row]. body_rows ! i =
          ''<tr>'' @ concat (map (\<lambda>v. ''<td>'' @ py_str v @ ''</td>'') (py_values ([?row] ! i)))
          @ ''</tr>''"
    by blast
  from rows have r0: "body_rows ! 0 =
      ''<tr>'' @ concat (map (\<lambda>v. ''<td>'' @ py_str v @ ''</td>'') (py_values ?row)) @ ''</tr>''"
    by simp
  from len have "body_rows = [body_rows ! 0]" by (cases body_rows) auto
  with r0 have br: "body_rows =
      [''<tr>'' @ concat (map (\<lambda>v. ''<td>'' @ py_str v @ ''</td>'') (py_values ?row)) @ ''</tr>'']"
    by simp
  have rendered: "convert_to_html_table [?row]
     = ''<table><thead><tr><th>trigger_name</th><th>process_name</th><th>last_run</th><th>next_run</th></tr></thead><tbody><tr><td>T1</td><td>P1</td><td>2024-01-01 00:00:00</td><td>None</td></tr></tbody></table>''"
    unfolding out hc br
    by (simp add: py_keys_def py_values_def impl_of_py_dict_distinct str_datetime_def
        zero_pad_def on_day_def digits10.simps)
  have free: "(\<forall>k \<in> set (py_keys (hd [?row])). CHR ''<'' \<notin> set k)
        \<and> (\<forall>row \<in> set [?row]. \<forall>v \<in> set (py_values row). CHR ''<'' \<notin> set (py_str v))"
    by (simp add: py_keys_def py_values_def impl_of_py_dict_distinct str_datetime_def
        zero_pad_def on_day_def digits10.simps)
  from inst[THEN conjunct2, rule_format, OF free]
  have "occurrences ''<th>'' (convert_to_html_table [?row]) = 4
      \<and> occurrences ''<tr>'' (convert_to_html_table [?row]) = 2
      \<and> occurrences ''<td>'' (convert_to_html_table [?row]) = 4"
    by (simp add: py_keys_def py_values_def impl_of_py_dict_distinct)
  with ne rendered show ?thesis by (intro conjI) simp_all
qed

text \<open>
  Claim C4. For the empty list of rows the conversion returns the fixed placeholder
  paragraph "Ingen data tilgaengelig.", and that output contains no table element:
  the text \<open><table\<close> does not occur in it.
\<close>

theorem empty_data_gives_placeholder:
  "convert_to_html_table [] = ''<p>Ingen data tilg'' @ [CHR 0xC3, CHR 0xA6] @ ''ngelig.</p>''
   \<and> \<not> sublist ''<table'' (convert_to_html_table [])"
  by (simp add: convert_to_html_table_def no_data_placeholder_def sublist_code)

text \<open>
  Claim C7. No cell value is escaped: for every value \<open>v\<close> of every row of the data,
  the text \<open>str(v)\<close> stands in the fragment as it is, between \<open><td>\<close> and \<open></td>\<close>,
  markup characters included.
\<close>

theorem cell_values_not_escaped:
  assumes "row \<in> set data" and "v \<in> set (py_values row)"
  shows "sublist (''<td>'' @ py_str v @ ''</td>'') (convert_to_html_table data)"
proof -
  let ?cell = "\<lambda>value. ''<td>'' @ py_str value @ ''</td>''"
  let ?tr = "\<lambda>row. ''<tr>'' @ concat (map ?cell (py_values row)) @ ''</tr>''"
  have "sublist (?cell v) (concat (map ?cell (py_values row)))"
    using assms(2) by (intro sublist_in_concat) simp
  then have "sublist (?cell v) (?tr row)"
    by (rule sublist_wrap)
  moreover have "sublist (?tr row) (concat (map ?tr data))"
    using assms(1) by (intro sublist_in_concat) simp
  ultimately have body: "sublist (?cell v) (concat (map ?tr data))"
    using sublist_order.order_trans by blast
  from assms(1) obtain row0 rest where d: "data = row0 # rest" by (cases data) auto
  have eq: "convert_to_html_table data =
      (''<table><thead><tr>'' @ concat (map (\<lambda>header. ''<th>'' @ header @ ''</th>'') (py_keys row0))
        @ ''</tr></thead><tbody>'') @ concat (map ?tr data) @ ''</tbody></table>''"
    unfolding d by (simp add: convert_to_html_table_def)
  show ?thesis unfolding eq by (rule sublist_wrap[OF body])
qed

theorem cell_values_not_escaped_witness:
  "py_dict [(''trigger_name'', PStr ''<script>alert(1)</script>'')]
     \<in> set [py_dict [(''trigger_name'', PStr ''<script>alert(1)</script>'')]]
   \<and> PStr ''<script>alert(1)</script>''
     \<in> set (py_values (py_dict [(''trigger_name'', PStr ''<script>alert(1)</script>'')]))
   \<and> sublist ''<td><script>alert(1)</script></td>''
       (convert_to_html_table [py_dict [(''trigger_name'', PStr ''<script>alert(1)</script>'')]])"
proof -
  let ?row = "py_dict [(''trigger_name'', PStr ''<script>alert(1)</script>'')]"
  have r: "?row \<in> set [?row]" by simp
  have v: "PStr ''<script>alert(1)</script>'' \<in> set (py_values ?row)"
    by (simp add: py_values_def impl_of_py_dict_distinct)
  from cell_values_not_escaped[OF r v]
  have "sublist ''<td><script>alert(1)</script></td>'' (convert_to_html_table [?row])"
    by simp
  with r v show ?thesis by (intro conjI)
qed

text \<open>
  Claim C10, as the code has it. The renderer checks nothing about the shape of its
  rows and has no error result. A list whose second row has other columns than the
  first is rendered without complaint: the header shows the columns of the first row
  and the second body row has two cells under the one header cell.
\<close>

theorem mismatched_rows_are_rendered:
  "py_keys (py_dict [(''b'', PInt 2), (''c'', PInt 3)]) \<noteq> py_keys (py_dict [(''a'', PInt 1)])
   \<and> convert_to_html_table
       [py_dict [(''a'', PInt 1)], py_dict [(''b'', PInt 2), (''c'', PInt 3)]]
     = ''<table><thead><tr><th>a</th></tr></thead><tbody><tr><td>1</td></tr><tr><td>2</td><td>3</td></tr></tbody></table>''"
  by (simp add: convert_to_html_table_def py_keys_def py_values_def impl_of_py_dict digits10.simps)

text \<open>
  Claim C10, amended. The fragment of a non-empty list is a table element that
  depends only on the keys of the first row and on the values of the rows: the keys of
  the rows after the first are never read, so two lists that agree on the first row's
  keys and on all values give the same fragment.
\<close>

theorem later_row_keys_are_ignored:
  assumes "data \<noteq> []" and "data' \<noteq> []"
    and "py_keys (hd data) = py_keys (hd data')"
    and "map py_values data = map py_values data'"
  shows "convert_to_html_table data = convert_to_html_table data'"
proof -
  from assms(1) obtain r rs where d: "data = r # rs" by (cases data) auto
  from assms(2) obtain r' rs' where d': "data' = r' # rs'" by (cases data') auto
  let ?tr = "\<lambda>vs. ''<tr>'' @ concat (map (\<lambda>value. ''<td>'' @ py_str value @ ''</td>'') vs) @ ''</tr>''"
  have "map (\<lambda>row. ?tr (py_values row)) data = map ?tr (map py_values data)" by simp
  also have "\<dots> = map ?tr (map py_values data')" using assms(4) by simp
  also have "\<dots> = map (\<lambda>row. ?tr (py_values row)) data'" by simp
  finally show ?thesis using assms(3) unfolding d d'
    by (simp add: convert_to_html_table_def)
qed

theorem later_row_keys_are_ignored_witness:
  "[py_dict [(''a'', PInt 1)], py_dict [(''b'', PInt 2), (''c'', PInt 3)]] \<noteq> []
   \<and> [py_dict [(''a'', PInt 1)], py_dict [(''a'', PInt 2), (''x'', PInt 3)]] \<noteq> []
   \<and> py_keys (hd [py_dict [(''a'', PInt 1)], py_dict [(''b'', PInt 2), (''c'', PInt 3)]])
     = py_keys (hd [py_dict [(''a'', PInt 1)], py_dict [(''a'', PInt 2), (''x'', PInt 3)]])
   \<and> map py_values [py_dict [(''a'', PInt 1)], py_dict [(''b'', PInt 2), (''c'', PInt 3)]]
     = map py_values [py_dict [(''a'', PInt 1)], py_dict [(''a'', PInt 2), (''x'', PInt 3)]]
   \<and> convert_to_html_table [py_dict [(''a'', PInt 1)], py_dict [(''b'', PInt 2), (''c'', PInt 3)]]
     = convert_to_html_table [py_dict [(''a'', PInt 1)], py_dict [(''a'', PInt 2), (''x'', PInt 3)]]"
proof -
  let ?d = "[py_dict [(''a'', PInt 1)], py_dict [(''b'', PInt 2), (''c'', PInt 3)]]"
  let ?d' = "[py_dict [(''a'', PInt 1)], py_dict [(''a'', PInt 2), (''x'', PInt 3)]]"
  have n: "?d \<noteq> []" and n': "?d' \<noteq> []" by simp_all
  have k: "py_keys (hd ?d) = py_keys (hd ?d')" by simp
  have v: "map py_values ?d = map py_values ?d'"
    by (simp add: py_values_def impl_of_py_dict_distinct)
  from later_row_keys_are_ignored[OF n n' k v] n n' k v show ?thesis by (intro conjI)
qed


section \<open>The mail\<close>

text \<open>
  Claim C5. When \<open>send_email\<close> succeeds it has submitted one message, built from the
  report and the alert flag that its own call of \<open>generate_html_report\<close> returned.
  The subject of that message carries the warning suffix, and the headers
  \<open>X-Priority: 1\<close>, \<open>X-MSMail-Priority: High\<close> and \<open>Importance: High\<close> are present,
  exactly when the alert flag is true; when the flag is false the subject is the plain
  one and none of the three headers exists.
\<close>

theorem priority_marks_iff_alert:
  assumes "send_email settings arg w = (Inr u, w')"
  shows "\<exists>html_content alert_flag w1 msg subject.
      generate_html_report w = (Inr (html_content, alert_flag), w1)
    \<and> outbox w' = outbox w @ [\<lparr>to_server = smtp_server settings,
                                to_port = smtp_port settings, submitted = msg\<rparr>]
    \<and> map_of (msg_headers msg) ''Subject'' = Some subject
    \<and> subject = (if alert_flag then ''RPA - Driftsrapport'' @ warning_suffix
                  else ''RPA - Driftsrapport'')
    \<and> (sublist warning_suffix subject \<longleftrightarrow> alert_flag)
    \<and> (map_of (msg_headers msg) ''X-Priority'' = Some ''1'' \<longleftrightarrow> alert_flag)
    \<and> (map_of (msg_headers msg) ''X-MSMail-Priority'' = Some ''High'' \<longleftrightarrow> alert_flag)
    \<and> (map_of (msg_headers msg) ''Importance'' = Some ''High'' \<longleftrightarrow> alert_flag)
    \<and> (\<not> alert_flag \<longrightarrow>
          map_of (msg_headers msg) ''X-Priority'' = None
        \<and> map_of (msg_headers msg) ''X-MSMail-Priority'' = None
        \<and> map_of (msg_headers msg) ''Importance'' = None)"
proof -
  from send_email_outcomes[OF assms] obtain html_content alert_flag where
    g: "generate_html_report w = (Inr (html_content, alert_flag), w\<lparr>db_calls := db_calls w + 4\<rparr>)"
    and o: "outbox w' = outbox w @ [\<lparr>to_server = smtp_server settings,
                    to_port = smtp_port settings,
                    submitted = email_message settings html_content alert_flag\<rparr>]"
    by auto
  let ?msg = "email_message settings html_content alert_flag"
  let ?subject = "if alert_flag then ''RPA - Driftsrapport'' @ warning_suffix
                  else ''RPA - Driftsrapport''"
  have s: "map_of (msg_headers ?msg) ''Subject'' = Some ?subject"
    by (simp add: email_message_headers)
  have c: "sublist warning_suffix ?subject \<longleftrightarrow> alert_flag"
  proof (cases alert_flag)
    case True
    have "sublist warning_suffix (''RPA - Driftsrapport'' @ warning_suffix)"
      by (rule sublist_append_leftI)
    with True show ?thesis by (simp only: if_True)
  next
    case False
    with suffix_not_in_plain_subject show ?thesis by (simp only: if_False)
  qed
  have h: "(map_of (msg_headers ?msg) ''X-Priority'' = Some ''1'' \<longleftrightarrow> alert_flag)
    \<and> (map_of (msg_headers ?msg) ''X-MSMail-Priority'' = Some ''High'' \<longleftrightarrow> alert_flag)
    \<and> (map_of (msg_headers ?msg) ''Importance'' = Some ''High'' \<longleftrightarrow> alert_flag)
    \<and> (\<not> alert_flag \<longrightarrow>
          map_of (msg_headers ?msg) ''X-Priority'' = None
        \<and> map_of (msg_headers ?msg) ''X-MSMail-Priority'' = None
        \<and> map_of (msg_headers ?msg) ''Importance'' = None)"
    by (simp add: email_message_headers)
  show ?thesis using g o s c h by blast
qed

theorem priority_marks_iff_alert_witness:
  "fst (send_email example_settings () example_world) = Inr ()
   \<and> (\<exists>msg. map submitted (outbox (snd (send_email example_settings () example_world))) = [msg]
        \<and> map_of (msg_headers msg) ''Subject'' = Some (''RPA - Driftsrapport'' @ warning_suffix)
        \<and> map_of (msg_headers msg) ''X-Priority'' = Some ''1''
        \<and> map_of (msg_headers msg) ''X-MSMail-Priority'' = Some ''High''
        \<and> map_of (msg_headers msg) ''Importance'' = Some ''High'')"
proof -
  obtain w' where h: "send_email example_settings () example_world = (Inr (), w')"
    using example_mail[of "()"] by simp
  from priority_marks_iff_alert[OF h] obtain html_content alert_flag w1 msg subject where
    g: "generate_html_report example_world = (Inr (html_content, alert_flag), w1)"
    and o: "outbox w' = outbox example_world @ [\<lparr>to_server = smtp_server example_settings,
                                to_port = smtp_port example_settings, submitted = msg\<rparr>]"
    and s: "map_of (msg_headers msg) ''Subject'' = Some subject"
    and sv: "subject = (if alert_flag then ''RPA - Driftsrapport'' @ warning_suffix
                  else ''RPA - Driftsrapport'')"
    and p1: "map_of (msg_headers msg) ''X-Priority'' = Some ''1'' \<longleftrightarrow> alert_flag"
    and p2: "map_of (msg_headers msg) ''X-MSMail-Priority'' = Some ''High'' \<longleftrightarrow> alert_flag"
    and p3: "map_of (msg_headers msg) ''Importance'' = Some ''High'' \<longleftrightarrow> alert_flag"
    by blast
  from g example_report have a: "alert_flag" by simp
  have "outbox example_world = []" by (simp add: example_world_def)
  with o have m: "map submitted (outbox w') = [msg]" by simp
  from a s sv p1 p2 p3 m have "\<exists>msg. map submitted (outbox w') = [msg]
        \<and> map_of (msg_headers msg) ''Subject'' = Some (''RPA - Driftsrapport'' @ warning_suffix)
        \<and> map_of (msg_headers msg) ''X-Priority'' = Some ''1''
        \<and> map_of (msg_headers msg) ''X-MSMail-Priority'' = Some ''High''
        \<and> map_of (msg_headers msg) ''Importance'' = Some ''High''"
    by (intro exI[of _ msg]) simp
  then show ?thesis unfolding h by simp
qed

text \<open>
  Claim C6. \<open>send_email\<close> runs the four queries before it builds the message. If one
  of these four database sessions fails, \<open>send_email\<close> raises the database error and
  the outbox is unchanged; in every case either nothing was submitted or all four
  sessions answered and exactly the message rendered from their result sets was
  submitted. (A submission says nothing about how the call ends: \<open>send_email\<close> can
  still raise after the server has accepted the message.) A whole run (\<open>process\<close>)
  starts eight sessions, four for the report it renders first and four inside
  \<open>send_email\<close>: if one of the eight fails the run ends with an error and submits
  nothing, and the error is the database error when the job arguments are well
  formed.
\<close>

theorem query_failure_sends_nothing:
  "((\<exists>i<4. \<forall>db. db_env w (db_calls w + i) \<noteq> Answers db) \<longrightarrow>
        fst (send_email settings arg w) = Inl DatabaseError
      \<and> outbox (snd (send_email settings arg w)) = outbox w)
   \<and> (outbox (snd (send_email settings arg w)) = outbox w
      \<or> ((\<forall>i<4. \<exists>db. db_env w (db_calls w + i) = Answers db)
         \<and> (\<exists>html_content alert_flag w1.
               generate_html_report w = (Inr (html_content, alert_flag), w1)
             \<and> outbox (snd (send_email settings arg w)) =
                 outbox w @ [\<lparr>to_server = smtp_server settings, to_port = smtp_port settings,
                    submitted = email_message settings html_content alert_flag\<rparr>])))
   \<and> ((\<exists>i<8. \<forall>db. db_env w (db_calls w + i) \<noteq> Answers db) \<longrightarrow>
        (fst (process cfg process_arguments w) = Inl DatabaseError
         \<or> fst (process cfg process_arguments w) = Inl ConfigurationError)
      \<and> outbox (snd (process cfg process_arguments w)) = outbox w)
   \<and> ((\<exists>i<8. \<forall>db. db_env w (db_calls w + i) \<noteq> Answers db)
        \<and> process_arguments = Some oc_args_json
        \<and> oc_args_json ''fromEmail'' = Some from_v \<and> oc_args_json ''toEmail'' = Some to_v \<longrightarrow>
        fst (process cfg process_arguments w) = Inl DatabaseError)"
proof -
  obtain r w' where s: "send_email settings arg w = (r, w')" by fastforce
  have part1: "(\<exists>i<4. \<forall>db. db_env w (db_calls w + i) \<noteq> Answers db) \<longrightarrow>
        fst (send_email settings arg w) = Inl DatabaseError
      \<and> outbox (snd (send_email settings arg w)) = outbox w"
  proof
    assume bad: "\<exists>i<4. \<forall>db. db_env w (db_calls w + i) \<noteq> Answers db"
    obtain g w1 where g: "generate_html_report w = (g, w1)" by fastforce
    from bad g generate_html_report_Inr[of w _ w1] obtain e where e: "g = Inl e"
      by (cases g) auto
    with g generate_html_report_Inl[of w e w1] have "e = DatabaseError" by simp
    with g e generate_html_report_frame[OF g]
    show "fst (send_email settings arg w) = Inl DatabaseError
      \<and> outbox (snd (send_email settings arg w)) = outbox w"
      by (simp add: send_email_cases)
  qed
  have part2: "outbox (snd (send_email settings arg w)) = outbox w
      \<or> ((\<forall>i<4. \<exists>db. db_env w (db_calls w + i) = Answers db)
         \<and> (\<exists>html_content alert_flag w1.
               generate_html_report w = (Inr (html_content, alert_flag), w1)
             \<and> outbox (snd (send_email settings arg w)) =
                 outbox w @ [\<lparr>to_server = smtp_server settings, to_port = smtp_port settings,
                    submitted = email_message settings html_content alert_flag\<rparr>]))"
    using send_email_outcomes[OF s] generate_html_report_Inr[of w _ "w\<lparr>db_calls := db_calls w + 4\<rparr>"]
    unfolding s by (elim disjE) (simp, fastforce)
  have part3: "(fst (process cfg process_arguments w) = Inl DatabaseError
         \<or> fst (process cfg process_arguments w) = Inl ConfigurationError)
      \<and> outbox (snd (process cfg process_arguments w)) = outbox w"
    and part4: "process_arguments = Some oc_args_json
        \<and> oc_args_json ''fromEmail'' = Some from_v \<and> oc_args_json ''toEmail'' = Some to_v \<longrightarrow>
        fst (process cfg process_arguments w) = Inl DatabaseError"
    if bad: "\<exists>i<8. \<forall>db. db_env w (db_calls w + i) \<noteq> Answers db"
  proof -
    have run: "fst (io_bind generate_html_report (send_email st) w) = Inl DatabaseError
        \<and> outbox (snd (io_bind generate_html_report (send_email st) w)) = outbox w" for st
    proof -
      obtain r2 w2 where p: "io_bind generate_html_report (send_email st) w = (r2, w2)"
        by fastforce
      from run_outcomes[OF p] bad show ?thesis unfolding p by auto
    qed
    show "(fst (process cfg process_arguments w) = Inl DatabaseError
         \<or> fst (process cfg process_arguments w) = Inl ConfigurationError)
      \<and> outbox (snd (process cfg process_arguments w)) = outbox w"
    proof (cases process_arguments)
      case None
      then show ?thesis by (simp add: process_without_arguments)
    next
      case (Some a)
      show ?thesis
      proof (cases "a ''fromEmail'' = None \<or> a ''toEmail'' = None")
        case True
        with Some show ?thesis by (simp add: process_missing_key)
      next
        case False
        then obtain f t where "a ''fromEmail'' = Some f" "a ''toEmail'' = Some t" by auto
        with Some run show ?thesis by (simp add: process_with_arguments)
      qed
    qed
    show "process_arguments = Some oc_args_json
        \<and> oc_args_json ''fromEmail'' = Some from_v \<and> oc_args_json ''toEmail'' = Some to_v \<longrightarrow>
        fst (process cfg process_arguments w) = Inl DatabaseError"
      using run by (auto simp: process_with_arguments)
  qed
  show ?thesis using part1 part2 part3 part4 by blast
qed

theorem query_failure_sends_nothing_witness:
  "(\<exists>i<8. \<forall>db. db_env failing_world (db_calls failing_world + i) \<noteq> Answers db)
   \<and> fst (process example_config example_arguments failing_world) = Inl DatabaseError
   \<and> outbox (snd (process example_config example_arguments failing_world)) = []"
proof -
  have "\<forall>db. db_env failing_world (db_calls failing_world + 5) \<noteq> Answers db"
    by (simp add: failing_world_def example_world_def)
  then have bad: "\<exists>i<8. \<forall>db. db_env failing_world (db_calls failing_world + i) \<noteq> Answers db"
    by (intro exI[of _ 5]) simp
  have args: "example_arguments =
        Some [''fromEmail'' \<mapsto> PStr ''rpa@example.org'', ''toEmail'' \<mapsto> PStr ''ops@example.org'']"
    and f: "[''fromEmail'' \<mapsto> PStr ''rpa@example.org'', ''toEmail'' \<mapsto> PStr ''ops@example.org'']
             ''fromEmail'' = Some (PStr ''rpa@example.org'')"
    and t: "[''fromEmail'' \<mapsto> PStr ''rpa@example.org'', ''toEmail'' \<mapsto> PStr ''ops@example.org'']
             ''toEmail'' = Some (PStr ''ops@example.org'')"
    by (simp_all add: example_arguments_def)
  have o: "outbox failing_world = []" by (simp add: failing_world_def example_world_def)
  from query_failure_sends_nothing[of failing_world example_settings "()" example_config
      example_arguments
      "[''fromEmail'' \<mapsto> PStr ''rpa@example.org'', ''toEmail'' \<mapsto> PStr ''ops@example.org'']"
      "PStr ''rpa@example.org''" "PStr ''ops@example.org''"]
    bad args f t o
  have "fst (process example_config example_arguments failing_world) = Inl DatabaseError
   \<and> outbox (snd (process example_config example_arguments failing_world)) = []"
    by metis
  with bad show ?thesis by (rule conjI)
qed

text \<open>
  Claim C9. What \<open>send_email\<close> does is the same for any two values of its
  \<open>html_content\<close> argument, of any type: the result and the world after the call,
  the submitted message included, are equal. The message is built from the report
  and flag that \<open>generate_html_report\<close> returns inside \<open>send_email\<close>, so a run, which
  passes the report it rendered first, sends what it would send had it passed
  anything else.
\<close>

theorem mail_is_rebuilt_from_the_database:
  "send_email settings html_a w = send_email settings html_b w
   \<and> send_email settings html_a w =
       (case generate_html_report w of
          (Inl e, w1) \<Rightarrow> (Inl e, w1)
        | (Inr (html_content, alert_flag), w1) \<Rightarrow>
            smtp_send_message settings (email_message settings html_content alert_flag) w1)
   \<and> io_bind generate_html_report (send_email settings) w =
       io_bind generate_html_report (\<lambda>html_report. send_email settings html_b) w"
proof -
  have same: "send_email settings a = send_email settings b" for a :: 'x and b :: 'y
    by (simp add: send_email_def)
  have "send_email settings = (\<lambda>html_report. send_email settings html_b)"
    by (rule ext) (rule same)
  then have run: "io_bind generate_html_report (send_email settings) w =
       io_bind generate_html_report (\<lambda>html_report. send_email settings html_b) w"
    by (rule arg_cong[where f = "\<lambda>f. io_bind generate_html_report f w"])
  have eq: "send_email settings html_a w = send_email settings html_b w"
    by (simp only: same[of html_a html_b])
  show ?thesis
    by (intro conjI) (rule eq, rule send_email_cases, rule run)
qed

theorem mail_is_rebuilt_from_the_database_witness:
  "fst (generate_html_report changing_world) =
     Inr (template_render
            (convert_to_html_table (result_set example_database MissedRunsQuery))
            (convert_to_html_table (result_set example_database OverdueProcessesQuery))
            (convert_to_html_table (result_set example_database ProcessFailureQuery))
            (convert_to_html_table (result_set example_database ProcessStatusQuery)),
          True)
   \<and> process example_config example_arguments changing_world =
       (Inr (), changing_world\<lparr>db_calls := 8, smtp_calls := 1,
          outbox := [\<lparr>to_server = ''smtp.example.org'', to_port = ''25'',
            submitted = email_message example_settings
              (template_render
                 (convert_to_html_table (result_set quiet_database MissedRunsQuery))
                 (convert_to_html_table (result_set quiet_database OverdueProcessesQuery))
                 (convert_to_html_table (result_set quiet_database ProcessFailureQuery))
                 (convert_to_html_table (result_set quiet_database ProcessStatusQuery)))
              False\<rparr>]\<rparr>)"
proof -
  let ?w1 = "changing_world\<lparr>db_calls := 4\<rparr>"
  have "process example_config example_arguments changing_world =
      io_bind generate_html_report (send_email example_settings) changing_world"
    unfolding example_arguments_def
    by (subst process_with_arguments[of _ "PStr ''rpa@example.org''" "PStr ''ops@example.org''"])
       (simp_all add: example_settings_def example_config_def digits10.simps)
  also from mail_is_rebuilt_from_the_database[of example_settings _ changing_world "()"]
  have "\<dots> = io_bind generate_html_report (\<lambda>html_report. send_email example_settings ())
      changing_world"
    by (rule conjunct2[THEN conjunct2])
  also have "\<dots> = send_email example_settings () ?w1"
    by (simp add: io_bind_def changing_world_first_report)
  also from mail_is_rebuilt_from_the_database[of example_settings "()" ?w1 "()"]
  have "\<dots> = (case generate_html_report ?w1 of
          (Inl e, w1) \<Rightarrow> (Inl e, w1)
        | (Inr (html_content, alert_flag), w1) \<Rightarrow>
            smtp_send_message example_settings
              (email_message example_settings html_content alert_flag) w1)"
    by (rule conjunct2[THEN conjunct1])
  also have "\<dots> = (Inr (), changing_world\<lparr>db_calls := 8, smtp_calls := 1,
          outbox := [\<lparr>to_server = ''smtp.example.org'', to_port = ''25'',
            submitted = email_message example_settings
              (template_render
                 (convert_to_html_table (result_set quiet_database MissedRunsQuery))
                 (convert_to_html_table (result_set quiet_database OverdueProcessesQuery))
                 (convert_to_html_table (result_set quiet_database ProcessFailureQuery))
                 (convert_to_html_table (result_set quiet_database ProcessStatusQuery)))
              False\<rparr>]\<rparr>)"
    by (simp add: changing_world_second_report smtp_send_message_cases)
       (simp add: changing_world_def example_world_def example_settings_def)
  finally show ?thesis by (simp add: changing_world_first_report)
qed


section \<open>The database connection\<close>

text \<open>
  Claim C8, which the code does not meet. When the statement fails after the
  connection is made, \<open>fetch_data\<close> raises without reaching \<open>conn.close()\<close>: the call
  ends with one more open connection than it started with. (After a successful
  query the number of open connections is what it was,
  \<open>fetch_data_releases_connection_after_success\<close>.)
\<close>

theorem fetch_data_leaves_connection_open_when_query_fails:
  assumes "db_env w (db_calls w) = QueryFails"
  shows "fst (fetch_data query w) = Inl DatabaseError
       \<and> open_connections (snd (fetch_data query w)) = open_connections w + 1"
  using assms by (simp add: fetch_data_cases)

theorem fetch_data_leaves_connection_open_when_query_fails_witness:
  "db_env (failing_world\<lparr>db_calls := 5\<rparr>) (db_calls (failing_world\<lparr>db_calls := 5\<rparr>)) = QueryFails
   \<and> open_connections (failing_world\<lparr>db_calls := 5\<rparr>) = 0
   \<and> fst (fetch_data ProcessFailureQuery (failing_world\<lparr>db_calls := 5\<rparr>)) = Inl DatabaseError
   \<and> open_connections (snd (fetch_data ProcessFailureQuery (failing_world\<lparr>db_calls := 5\<rparr>))) = 1"
proof -
  let ?w = "failing_world\<lparr>db_calls := 5\<rparr>"
  have h: "db_env ?w (db_calls ?w) = QueryFails" by (simp add: failing_world_def)
  have o: "open_connections ?w = 0" by (simp add: failing_world_def example_world_def)
  from fetch_data_leaves_connection_open_when_query_fails[OF h, of ProcessFailureQuery] o
  have "fst (fetch_data ProcessFailureQuery ?w) = Inl DatabaseError
      \<and> open_connections (snd (fetch_data ProcessFailureQuery ?w)) = 1"
    by simp
  with h o show ?thesis by (intro conjI) simp_all
qed

end
